theory Spec2Isabelle
  imports Main "HOL-Library.Word"
begin

section \<open>The v2 client facade of dpservice-go (package clientv2)\<close>

text \<open>
  The package regroups the flat legacy client of dpservice into resource handles and adds
  per-call options. This theory embeds the package function by function and proves the
  properties of its two mechanisms: the call options and the handle hierarchy.
\<close>

subsection \<open>Go values\<close>

text \<open>
  A Go slice is either \<open>nil\<close> or a non-nil slice with its elements; both have a length,
  and only the elements of \<open>Slice\<close> can be non-empty. Capacity and backing arrays are left
  out: every slice built below is owned by the function that builds it.
\<close>

datatype 'a slice = nil | Slice "'a list"

fun elems :: "'a slice \<Rightarrow> 'a list" where
  "elems nil = []"
| "elems (Slice xs) = xs"

definition len :: "'a slice \<Rightarrow> nat" where
  "len s = length (elems s)"

text \<open>
  Go's built-in \<open>append(s, xs...)\<close>: with nothing to append the result is \<open>s\<close> itself
  (so \<open>nil\<close> stays \<open>nil\<close>); otherwise it is a non-nil slice holding the elements of \<open>s\<close>
  followed by \<open>xs\<close>.
\<close>

definition append_slice :: "'a slice \<Rightarrow> 'a list \<Rightarrow> 'a slice" where
  "append_slice s xs = (if xs = [] then s else Slice (elems s @ xs))"

type_synonym uint32 = "32 word"
type_synonym uint8 = "8 word"

text \<open>
  The one run-time fault the package's own code could raise: calling a \<open>nil\<close> function value.
\<close>

datatype panic = NilFunctionCall

subsection \<open>Call options\<close>

text \<open>
  \<^verbatim>\<open>type callOptions struct { ignoredCodes []uint32 }\<close>
\<close>

record callOptions =
  ignoredCodes :: "uint32 slice"

text \<open>
  \<^verbatim>\<open>type CallOption func(*callOptions)\<close>:
  a function value is \<open>nil\<close> (\<open>None\<close>) or a closure; the closure updates the
  configuration it is given a pointer to, which is modelled by passing the configuration in
  and returning the updated one.
\<close>

type_synonym CallOption = "(callOptions \<Rightarrow> callOptions) option"

text \<open>
  \<open>WithIgnoredCodes(codes...)\<close> returns a closure, never \<open>nil\<close>. The variadic parameter is
  given by its elements, the only thing \<open>append\<close> reads from it; the caller is taken not to
  overwrite a slice it passed as \<open>codes...\<close> before the option is applied.
\<close>

definition WithIgnoredCodes :: "uint32 list \<Rightarrow> CallOption" where
  "WithIgnoredCodes codes =
     Some (\<lambda>cfg. cfg\<lparr>ignoredCodes := append_slice (ignoredCodes cfg) codes\<rparr>)"

text \<open>
  The call \<open>opt(&o)\<close> of a function value: it panics when \<open>opt\<close> is \<open>nil\<close>.
  The source's variable \<open>o\<close> is written \<open>cfg\<close>.
\<close>

definition call_option :: "CallOption \<Rightarrow> callOptions \<Rightarrow> panic + callOptions" where
  "call_option opt cfg = (case opt of None \<Rightarrow> Inl NilFunctionCall | Some f \<Rightarrow> Inr (f cfg))"

text \<open>
  The loop \<open>for _, opt := range opts\<close> of \<open>buildCallOptions\<close>, started on the
  configuration accumulated so far.
\<close>

fun apply_options :: "callOptions \<Rightarrow> CallOption list \<Rightarrow> panic + callOptions" where
  "apply_options cfg [] = Inr cfg"
| "apply_options cfg (opt # opts) =
     (if opt \<noteq> None
      then (case call_option opt cfg of
              Inl p \<Rightarrow> Inl p
            | Inr cfg' \<Rightarrow> apply_options cfg' opts)
      else apply_options cfg opts)"

text \<open>\<open>var o callOptions\<close>: the zero value, whose slice field is \<open>nil\<close>.\<close>

definition zero_callOptions :: callOptions where
  "zero_callOptions = \<lparr>ignoredCodes = nil\<rparr>"

definition buildCallOptions :: "CallOption list \<Rightarrow> panic + callOptions" where
  "buildCallOptions opts = apply_options zero_callOptions opts"

definition toLegacyIgnored :: "CallOption list \<Rightarrow> panic + uint32 slice slice" where
  "toLegacyIgnored opts =
     (case buildCallOptions opts of
        Inl p \<Rightarrow> Inl p
      | Inr cfg \<Rightarrow>
          if len (ignoredCodes cfg) = 0 then Inr nil else Inr (Slice [ignoredCodes cfg]))"

subsection \<open>Values the facade only passes on\<close>

text \<open>
  A pointer is \<open>nil\<close> or an address; its type parameter names the Go type it points to.
  The facade never dereferences one. The pointed-to types of packages \<open>api\<close> and \<open>netip\<close>
  are therefore left unspecified, and a \<open>context.Context\<close> is known by an identifier only.
\<close>

datatype 'a ptr = nil_ptr | Ptr nat

datatype context_Context = Ctx nat

typedecl api_LoadBalancer
typedecl api_LoadBalancerPrefix
typedecl api_LoadBalancerTarget
typedecl api_Interface
typedecl api_VirtualIP
typedecl api_Prefix
typedecl api_Route
typedecl api_Nat
typedecl api_NeighborNat
typedecl api_FirewallRule
typedecl api_Version
typedecl api_CaptureStart
typedecl netip_Prefix
typedecl netip_Addr

subsection \<open>The legacy client\<close>

text \<open>
  Package \<open>client\<close> (imported as \<open>legacy\<close>) is not part of the facade; the facade sees its
  interface \<open>legacy.Client\<close> through the methods it calls. A method invocation is a value of
  \<open>legacyCall\<close>: the method's name with its arguments in the order of the call, the
  context first and the variadic \<open>ignoredErrors ...[]uint32\<close> last, given as the slice that
  \<open>f(args...)\<close> hands over unchanged.
\<close>

datatype legacyCall =
    GetLoadBalancer context_Context string "uint32 slice slice"
  | ListLoadBalancers context_Context "uint32 slice slice"
  | CreateLoadBalancer context_Context "api_LoadBalancer ptr" "uint32 slice slice"
  | DeleteLoadBalancer context_Context string "uint32 slice slice"
  | ListLoadBalancerPrefixes context_Context string "uint32 slice slice"
  | CreateLoadBalancerPrefix context_Context "api_LoadBalancerPrefix ptr" "uint32 slice slice"
  | DeleteLoadBalancerPrefix context_Context string "netip_Prefix ptr" "uint32 slice slice"
  | ListLoadBalancerTargets context_Context string "uint32 slice slice"
  | CreateLoadBalancerTarget context_Context "api_LoadBalancerTarget ptr" "uint32 slice slice"
  | DeleteLoadBalancerTarget context_Context string "netip_Addr ptr" "uint32 slice slice"
  | GetInterface context_Context string "uint32 slice slice"
  | ListInterfaces context_Context "uint32 slice slice"
  | CreateInterface context_Context "api_Interface ptr" "uint32 slice slice"
  | DeleteInterface context_Context string "uint32 slice slice"
  | GetVirtualIP context_Context string "uint32 slice slice"
  | CreateVirtualIP context_Context "api_VirtualIP ptr" "uint32 slice slice"
  | DeleteVirtualIP context_Context string "uint32 slice slice"
  | ListPrefixes context_Context string "uint32 slice slice"
  | CreatePrefix context_Context "api_Prefix ptr" "uint32 slice slice"
  | DeletePrefix context_Context string "netip_Prefix ptr" "uint32 slice slice"
  | ListRoutes context_Context uint32 "uint32 slice slice"
  | CreateRoute context_Context "api_Route ptr" "uint32 slice slice"
  | DeleteRoute context_Context uint32 "netip_Prefix ptr" "uint32 slice slice"
  | GetNat context_Context string "uint32 slice slice"
  | CreateNat context_Context "api_Nat ptr" "uint32 slice slice"
  | DeleteNat context_Context string "uint32 slice slice"
  | ListNats context_Context "netip_Addr ptr" string "uint32 slice slice"
  | ListLocalNats context_Context "netip_Addr ptr" "uint32 slice slice"
  | ListNeighborNats context_Context "netip_Addr ptr" "uint32 slice slice"
  | CreateNeighborNat context_Context "api_NeighborNat ptr" "uint32 slice slice"
  | DeleteNeighborNat context_Context "api_NeighborNat ptr" "uint32 slice slice"
  | ListFirewallRules context_Context string "uint32 slice slice"
  | GetFirewallRule context_Context string string "uint32 slice slice"
  | CreateFirewallRule context_Context "api_FirewallRule ptr" "uint32 slice slice"
  | DeleteFirewallRule context_Context string string "uint32 slice slice"
  | CheckInitialized context_Context "uint32 slice slice"
  | Initialize context_Context "uint32 slice slice"
  | GetVni context_Context uint32 uint8 "uint32 slice slice"
  | ResetVni context_Context uint32 uint8 "uint32 slice slice"
  | GetVersion context_Context "api_Version ptr" "uint32 slice slice"
  | CaptureStart context_Context "api_CaptureStart ptr" "uint32 slice slice"
  | CaptureStop context_Context "uint32 slice slice"
  | CaptureStatus context_Context "uint32 slice slice"

text \<open>
  A legacy client is modelled by what it does: invoked in a state of the world \<open>'w\<close> (the
  connection, the remote service), a method returns its results \<open>'r\<close> (the pair of a result
  object and an error) and leaves a new state. Both are type parameters: the facade can
  neither inspect nor build them. The interface value is taken to be a client, not \<open>nil\<close>,
  and what a method does beyond returning (blocking, panicking) is the legacy client's own.
\<close>

type_synonym ('r, 'w) legacy_Client = "legacyCall \<Rightarrow> 'w \<Rightarrow> 'r \<times> 'w"

subsection \<open>Handles\<close>

text \<open>
  \<open>rootAdapter\<close> and the eleven resource clients are structs with the single field
  \<open>legacy legacy.Client\<close>. A handle is modelled by the value of its struct.
\<close>

record ('r, 'w) rootAdapter =
  legacy :: "('r, 'w) legacy_Client"

record ('r, 'w) lbClient =
  legacy :: "('r, 'w) legacy_Client"

record ('r, 'w) lbPrefixesClient =
  legacy :: "('r, 'w) legacy_Client"

record ('r, 'w) lbTargetsClient =
  legacy :: "('r, 'w) legacy_Client"

record ('r, 'w) ifaceClient =
  legacy :: "('r, 'w) legacy_Client"

record ('r, 'w) vipClient =
  legacy :: "('r, 'w) legacy_Client"

record ('r, 'w) ifacePrefixesClient =
  legacy :: "('r, 'w) legacy_Client"

record ('r, 'w) routeClient =
  legacy :: "('r, 'w) legacy_Client"

record ('r, 'w) natClient =
  legacy :: "('r, 'w) legacy_Client"

record ('r, 'w) fwClient =
  legacy :: "('r, 'w) legacy_Client"

record ('r, 'w) systemClient =
  legacy :: "('r, 'w) legacy_Client"

record ('r, 'w) captureClient =
  legacy :: "('r, 'w) legacy_Client"

text \<open>
  \<open>legacy.NewClient\<close> belongs to the legacy package and is a parameter of \<open>NewFromProto\<close>.
\<close>

definition NewFromProto ::
  "('rpc \<Rightarrow> ('r, 'w) legacy_Client) \<Rightarrow> 'rpc \<Rightarrow> ('r, 'w) rootAdapter" where
  "NewFromProto legacy_NewClient rpc = \<lparr>rootAdapter.legacy = legacy_NewClient rpc\<rparr>"

definition AsV2 :: "('r, 'w) legacy_Client \<Rightarrow> ('r, 'w) rootAdapter" where
  "AsV2 c = \<lparr>rootAdapter.legacy = c\<rparr>"

text \<open>The accessors of the root: each returns a new struct holding \<open>r.legacy\<close>.\<close>

definition rootAdapter_LoadBalancers :: "('r, 'w) rootAdapter \<Rightarrow> ('r, 'w) lbClient" where
  "rootAdapter_LoadBalancers r = \<lparr>lbClient.legacy = rootAdapter.legacy r\<rparr>"

definition rootAdapter_Interfaces :: "('r, 'w) rootAdapter \<Rightarrow> ('r, 'w) ifaceClient" where
  "rootAdapter_Interfaces r = \<lparr>ifaceClient.legacy = rootAdapter.legacy r\<rparr>"

definition rootAdapter_Routes :: "('r, 'w) rootAdapter \<Rightarrow> ('r, 'w) routeClient" where
  "rootAdapter_Routes r = \<lparr>routeClient.legacy = rootAdapter.legacy r\<rparr>"

definition rootAdapter_NATs :: "('r, 'w) rootAdapter \<Rightarrow> ('r, 'w) natClient" where
  "rootAdapter_NATs r = \<lparr>natClient.legacy = rootAdapter.legacy r\<rparr>"

definition rootAdapter_Firewall :: "('r, 'w) rootAdapter \<Rightarrow> ('r, 'w) fwClient" where
  "rootAdapter_Firewall r = \<lparr>fwClient.legacy = rootAdapter.legacy r\<rparr>"

definition rootAdapter_System :: "('r, 'w) rootAdapter \<Rightarrow> ('r, 'w) systemClient" where
  "rootAdapter_System r = \<lparr>systemClient.legacy = rootAdapter.legacy r\<rparr>"

definition rootAdapter_Capture :: "('r, 'w) rootAdapter \<Rightarrow> ('r, 'w) captureClient" where
  "rootAdapter_Capture r = \<lparr>captureClient.legacy = rootAdapter.legacy r\<rparr>"

subsection \<open>Operations\<close>

text \<open>
  Every operation is one statement,
  \<^verbatim>\<open>return c.legacy.M(ctx, params..., toLegacyIgnored(opts...)...)\<close>.
  Go evaluates the arguments first: \<open>with_ignored\<close> evaluates \<open>toLegacyIgnored(opts...)\<close>
  and, unless that panics, makes the call with the slice it returned. The state of the
  world \<open>w\<close> goes through the legacy method and nothing else.
\<close>

definition with_ignored :: "CallOption list \<Rightarrow> (uint32 slice slice \<Rightarrow> 'a) \<Rightarrow> panic + 'a" where
  "with_ignored opts call =
     (case toLegacyIgnored opts of Inl p \<Rightarrow> Inl p | Inr ignored \<Rightarrow> Inr (call ignored))"

subsubsection \<open>Load balancers\<close>

definition lbClient_Get ::
  "('r, 'w) lbClient \<Rightarrow> context_Context \<Rightarrow> string \<Rightarrow>
   CallOption list \<Rightarrow> 'w \<Rightarrow> panic + 'r \<times> 'w" where
  "lbClient_Get c ctx id' opts w =
     with_ignored opts (\<lambda>ignored. lbClient.legacy c (GetLoadBalancer ctx id' ignored) w)"

definition lbClient_List ::
  "('r, 'w) lbClient \<Rightarrow> context_Context \<Rightarrow>
   CallOption list \<Rightarrow> 'w \<Rightarrow> panic + 'r \<times> 'w" where
  "lbClient_List c ctx opts w =
     with_ignored opts (\<lambda>ignored. lbClient.legacy c (ListLoadBalancers ctx ignored) w)"

definition lbClient_Create ::
  "('r, 'w) lbClient \<Rightarrow> context_Context \<Rightarrow> api_LoadBalancer ptr \<Rightarrow>
   CallOption list \<Rightarrow> 'w \<Rightarrow> panic + 'r \<times> 'w" where
  "lbClient_Create c ctx lb opts w =
     with_ignored opts (\<lambda>ignored. lbClient.legacy c (CreateLoadBalancer ctx lb ignored) w)"

definition lbClient_Delete ::
  "('r, 'w) lbClient \<Rightarrow> context_Context \<Rightarrow> string \<Rightarrow>
   CallOption list \<Rightarrow> 'w \<Rightarrow> panic + 'r \<times> 'w" where
  "lbClient_Delete c ctx id' opts w =
     with_ignored opts (\<lambda>ignored. lbClient.legacy c (DeleteLoadBalancer ctx id' ignored) w)"

definition lbClient_Prefixes :: "('r, 'w) lbClient \<Rightarrow> ('r, 'w) lbPrefixesClient" where
  "lbClient_Prefixes c = \<lparr>lbPrefixesClient.legacy = lbClient.legacy c\<rparr>"

definition lbClient_Targets :: "('r, 'w) lbClient \<Rightarrow> ('r, 'w) lbTargetsClient" where
  "lbClient_Targets c = \<lparr>lbTargetsClient.legacy = lbClient.legacy c\<rparr>"

definition lbPrefixesClient_List ::
  "('r, 'w) lbPrefixesClient \<Rightarrow> context_Context \<Rightarrow> string \<Rightarrow>
   CallOption list \<Rightarrow> 'w \<Rightarrow> panic + 'r \<times> 'w" where
  "lbPrefixesClient_List c ctx interfaceID opts w =
     with_ignored opts (\<lambda>ignored. lbPrefixesClient.legacy c (ListLoadBalancerPrefixes ctx interfaceID ignored) w)"

definition lbPrefixesClient_Create ::
  "('r, 'w) lbPrefixesClient \<Rightarrow> context_Context \<Rightarrow> api_LoadBalancerPrefix ptr \<Rightarrow>
   CallOption list \<Rightarrow> 'w \<Rightarrow> panic + 'r \<times> 'w" where
  "lbPrefixesClient_Create c ctx prefix opts w =
     with_ignored opts (\<lambda>ignored. lbPrefixesClient.legacy c (CreateLoadBalancerPrefix ctx prefix ignored) w)"

definition lbPrefixesClient_Delete ::
  "('r, 'w) lbPrefixesClient \<Rightarrow> context_Context \<Rightarrow> string \<Rightarrow> netip_Prefix ptr \<Rightarrow>
   CallOption list \<Rightarrow> 'w \<Rightarrow> panic + 'r \<times> 'w" where
  "lbPrefixesClient_Delete c ctx interfaceID prefix opts w =
     with_ignored opts (\<lambda>ignored. lbPrefixesClient.legacy c (DeleteLoadBalancerPrefix ctx interfaceID prefix ignored) w)"

definition lbTargetsClient_List ::
  "('r, 'w) lbTargetsClient \<Rightarrow> context_Context \<Rightarrow> string \<Rightarrow>
   CallOption list \<Rightarrow> 'w \<Rightarrow> panic + 'r \<times> 'w" where
  "lbTargetsClient_List c ctx loadBalancerID opts w =
     with_ignored opts (\<lambda>ignored. lbTargetsClient.legacy c (ListLoadBalancerTargets ctx loadBalancerID ignored) w)"

definition lbTargetsClient_Create ::
  "('r, 'w) lbTargetsClient \<Rightarrow> context_Context \<Rightarrow> api_LoadBalancerTarget ptr \<Rightarrow>
   CallOption list \<Rightarrow> 'w \<Rightarrow> panic + 'r \<times> 'w" where
  "lbTargetsClient_Create c ctx target opts w =
     with_ignored opts (\<lambda>ignored. lbTargetsClient.legacy c (CreateLoadBalancerTarget ctx target ignored) w)"

definition lbTargetsClient_Delete ::
  "('r, 'w) lbTargetsClient \<Rightarrow> context_Context \<Rightarrow> string \<Rightarrow> netip_Addr ptr \<Rightarrow>
   CallOption list \<Rightarrow> 'w \<Rightarrow> panic + 'r \<times> 'w" where
  "lbTargetsClient_Delete c ctx lbID targetIP opts w =
     with_ignored opts (\<lambda>ignored. lbTargetsClient.legacy c (DeleteLoadBalancerTarget ctx lbID targetIP ignored) w)"

subsubsection \<open>Interfaces and sub-resources\<close>

definition ifaceClient_Get ::
  "('r, 'w) ifaceClient \<Rightarrow> context_Context \<Rightarrow> string \<Rightarrow>
   CallOption list \<Rightarrow> 'w \<Rightarrow> panic + 'r \<times> 'w" where
  "ifaceClient_Get c ctx id' opts w =
     with_ignored opts (\<lambda>ignored. ifaceClient.legacy c (GetInterface ctx id' ignored) w)"

definition ifaceClient_List ::
  "('r, 'w) ifaceClient \<Rightarrow> context_Context \<Rightarrow>
   CallOption list \<Rightarrow> 'w \<Rightarrow> panic + 'r \<times> 'w" where
  "ifaceClient_List c ctx opts w =
     with_ignored opts (\<lambda>ignored. ifaceClient.legacy c (ListInterfaces ctx ignored) w)"

definition ifaceClient_Create ::
  "('r, 'w) ifaceClient \<Rightarrow> context_Context \<Rightarrow> api_Interface ptr \<Rightarrow>
   CallOption list \<Rightarrow> 'w \<Rightarrow> panic + 'r \<times> 'w" where
  "ifaceClient_Create c ctx iface opts w =
     with_ignored opts (\<lambda>ignored. ifaceClient.legacy c (CreateInterface ctx iface ignored) w)"

definition ifaceClient_Delete ::
  "('r, 'w) ifaceClient \<Rightarrow> context_Context \<Rightarrow> string \<Rightarrow>
   CallOption list \<Rightarrow> 'w \<Rightarrow> panic + 'r \<times> 'w" where
  "ifaceClient_Delete c ctx id' opts w =
     with_ignored opts (\<lambda>ignored. ifaceClient.legacy c (DeleteInterface ctx id' ignored) w)"

definition ifaceClient_VIP :: "('r, 'w) ifaceClient \<Rightarrow> ('r, 'w) vipClient" where
  "ifaceClient_VIP c = \<lparr>vipClient.legacy = ifaceClient.legacy c\<rparr>"

definition ifaceClient_Prefixes :: "('r, 'w) ifaceClient \<Rightarrow> ('r, 'w) ifacePrefixesClient" where
  "ifaceClient_Prefixes c = \<lparr>ifacePrefixesClient.legacy = ifaceClient.legacy c\<rparr>"

definition ifaceClient_Firewall :: "('r, 'w) ifaceClient \<Rightarrow> ('r, 'w) fwClient" where
  "ifaceClient_Firewall c = \<lparr>fwClient.legacy = ifaceClient.legacy c\<rparr>"

definition vipClient_Get ::
  "('r, 'w) vipClient \<Rightarrow> context_Context \<Rightarrow> string \<Rightarrow>
   CallOption list \<Rightarrow> 'w \<Rightarrow> panic + 'r \<times> 'w" where
  "vipClient_Get c ctx interfaceID opts w =
     with_ignored opts (\<lambda>ignored. vipClient.legacy c (GetVirtualIP ctx interfaceID ignored) w)"

definition vipClient_Create ::
  "('r, 'w) vipClient \<Rightarrow> context_Context \<Rightarrow> api_VirtualIP ptr \<Rightarrow>
   CallOption list \<Rightarrow> 'w \<Rightarrow> panic + 'r \<times> 'w" where
  "vipClient_Create c ctx vip opts w =
     with_ignored opts (\<lambda>ignored. vipClient.legacy c (CreateVirtualIP ctx vip ignored) w)"

definition vipClient_Delete ::
  "('r, 'w) vipClient \<Rightarrow> context_Context \<Rightarrow> string \<Rightarrow>
   CallOption list \<Rightarrow> 'w \<Rightarrow> panic + 'r \<times> 'w" where
  "vipClient_Delete c ctx interfaceID opts w =
     with_ignored opts (\<lambda>ignored. vipClient.legacy c (DeleteVirtualIP ctx interfaceID ignored) w)"

definition ifacePrefixesClient_List ::
  "('r, 'w) ifacePrefixesClient \<Rightarrow> context_Context \<Rightarrow> string \<Rightarrow>
   CallOption list \<Rightarrow> 'w \<Rightarrow> panic + 'r \<times> 'w" where
  "ifacePrefixesClient_List c ctx interfaceID opts w =
     with_ignored opts (\<lambda>ignored. ifacePrefixesClient.legacy c (ListPrefixes ctx interfaceID ignored) w)"

definition ifacePrefixesClient_Create ::
  "('r, 'w) ifacePrefixesClient \<Rightarrow> context_Context \<Rightarrow> api_Prefix ptr \<Rightarrow>
   CallOption list \<Rightarrow> 'w \<Rightarrow> panic + 'r \<times> 'w" where
  "ifacePrefixesClient_Create c ctx prefix opts w =
     with_ignored opts (\<lambda>ignored. ifacePrefixesClient.legacy c (CreatePrefix ctx prefix ignored) w)"

definition ifacePrefixesClient_Delete ::
  "('r, 'w) ifacePrefixesClient \<Rightarrow> context_Context \<Rightarrow> string \<Rightarrow> netip_Prefix ptr \<Rightarrow>
   CallOption list \<Rightarrow> 'w \<Rightarrow> panic + 'r \<times> 'w" where
  "ifacePrefixesClient_Delete c ctx interfaceID prefix opts w =
     with_ignored opts (\<lambda>ignored. ifacePrefixesClient.legacy c (DeletePrefix ctx interfaceID prefix ignored) w)"

subsubsection \<open>Routes\<close>

definition routeClient_List ::
  "('r, 'w) routeClient \<Rightarrow> context_Context \<Rightarrow> uint32 \<Rightarrow>
   CallOption list \<Rightarrow> 'w \<Rightarrow> panic + 'r \<times> 'w" where
  "routeClient_List c ctx vni opts w =
     with_ignored opts (\<lambda>ignored. routeClient.legacy c (ListRoutes ctx vni ignored) w)"

definition routeClient_Create ::
  "('r, 'w) routeClient \<Rightarrow> context_Context \<Rightarrow> api_Route ptr \<Rightarrow>
   CallOption list \<Rightarrow> 'w \<Rightarrow> panic + 'r \<times> 'w" where
  "routeClient_Create c ctx route opts w =
     with_ignored opts (\<lambda>ignored. routeClient.legacy c (CreateRoute ctx route ignored) w)"

definition routeClient_Delete ::
  "('r, 'w) routeClient \<Rightarrow> context_Context \<Rightarrow> uint32 \<Rightarrow> netip_Prefix ptr \<Rightarrow>
   CallOption list \<Rightarrow> 'w \<Rightarrow> panic + 'r \<times> 'w" where
  "routeClient_Delete c ctx vni prefix opts w =
     with_ignored opts (\<lambda>ignored. routeClient.legacy c (DeleteRoute ctx vni prefix ignored) w)"

subsubsection \<open>NATs\<close>

definition natClient_Get ::
  "('r, 'w) natClient \<Rightarrow> context_Context \<Rightarrow> string \<Rightarrow>
   CallOption list \<Rightarrow> 'w \<Rightarrow> panic + 'r \<times> 'w" where
  "natClient_Get c ctx interfaceID opts w =
     with_ignored opts (\<lambda>ignored. natClient.legacy c (GetNat ctx interfaceID ignored) w)"

definition natClient_Create ::
  "('r, 'w) natClient \<Rightarrow> context_Context \<Rightarrow> api_Nat ptr \<Rightarrow>
   CallOption list \<Rightarrow> 'w \<Rightarrow> panic + 'r \<times> 'w" where
  "natClient_Create c ctx nat' opts w =
     with_ignored opts (\<lambda>ignored. natClient.legacy c (CreateNat ctx nat' ignored) w)"

definition natClient_Delete ::
  "('r, 'w) natClient \<Rightarrow> context_Context \<Rightarrow> string \<Rightarrow>
   CallOption list \<Rightarrow> 'w \<Rightarrow> panic + 'r \<times> 'w" where
  "natClient_Delete c ctx interfaceID opts w =
     with_ignored opts (\<lambda>ignored. natClient.legacy c (DeleteNat ctx interfaceID ignored) w)"

definition natClient_ListAny ::
  "('r, 'w) natClient \<Rightarrow> context_Context \<Rightarrow> netip_Addr ptr \<Rightarrow>
   CallOption list \<Rightarrow> 'w \<Rightarrow> panic + 'r \<times> 'w" where
  "natClient_ListAny c ctx natIP opts w =
     with_ignored opts (\<lambda>ignored. natClient.legacy c (ListNats ctx natIP ''any'' ignored) w)"

definition natClient_ListLocal ::
  "('r, 'w) natClient \<Rightarrow> context_Context \<Rightarrow> netip_Addr ptr \<Rightarrow>
   CallOption list \<Rightarrow> 'w \<Rightarrow> panic + 'r \<times> 'w" where
  "natClient_ListLocal c ctx natIP opts w =
     with_ignored opts (\<lambda>ignored. natClient.legacy c (ListLocalNats ctx natIP ignored) w)"

definition natClient_ListNeighbors ::
  "('r, 'w) natClient \<Rightarrow> context_Context \<Rightarrow> netip_Addr ptr \<Rightarrow>
   CallOption list \<Rightarrow> 'w \<Rightarrow> panic + 'r \<times> 'w" where
  "natClient_ListNeighbors c ctx natIP opts w =
     with_ignored opts (\<lambda>ignored. natClient.legacy c (ListNeighborNats ctx natIP ignored) w)"

definition natClient_CreateNeighbor ::
  "('r, 'w) natClient \<Rightarrow> context_Context \<Rightarrow> api_NeighborNat ptr \<Rightarrow>
   CallOption list \<Rightarrow> 'w \<Rightarrow> panic + 'r \<times> 'w" where
  "natClient_CreateNeighbor c ctx n opts w =
     with_ignored opts (\<lambda>ignored. natClient.legacy c (CreateNeighborNat ctx n ignored) w)"

definition natClient_DeleteNeighbor ::
  "('r, 'w) natClient \<Rightarrow> context_Context \<Rightarrow> api_NeighborNat ptr \<Rightarrow>
   CallOption list \<Rightarrow> 'w \<Rightarrow> panic + 'r \<times> 'w" where
  "natClient_DeleteNeighbor c ctx n opts w =
     with_ignored opts (\<lambda>ignored. natClient.legacy c (DeleteNeighborNat ctx n ignored) w)"

subsubsection \<open>Firewall\<close>

definition fwClient_List ::
  "('r, 'w) fwClient \<Rightarrow> context_Context \<Rightarrow> string \<Rightarrow>
   CallOption list \<Rightarrow> 'w \<Rightarrow> panic + 'r \<times> 'w" where
  "fwClient_List c ctx interfaceID opts w =
     with_ignored opts (\<lambda>ignored. fwClient.legacy c (ListFirewallRules ctx interfaceID ignored) w)"

definition fwClient_Get ::
  "('r, 'w) fwClient \<Rightarrow> context_Context \<Rightarrow> string \<Rightarrow> string \<Rightarrow>
   CallOption list \<Rightarrow> 'w \<Rightarrow> panic + 'r \<times> 'w" where
  "fwClient_Get c ctx interfaceID ruleID opts w =
     with_ignored opts (\<lambda>ignored. fwClient.legacy c (GetFirewallRule ctx interfaceID ruleID ignored) w)"

definition fwClient_Create ::
  "('r, 'w) fwClient \<Rightarrow> context_Context \<Rightarrow> api_FirewallRule ptr \<Rightarrow>
   CallOption list \<Rightarrow> 'w \<Rightarrow> panic + 'r \<times> 'w" where
  "fwClient_Create c ctx rule opts w =
     with_ignored opts (\<lambda>ignored. fwClient.legacy c (CreateFirewallRule ctx rule ignored) w)"

definition fwClient_Delete ::
  "('r, 'w) fwClient \<Rightarrow> context_Context \<Rightarrow> string \<Rightarrow> string \<Rightarrow>
   CallOption list \<Rightarrow> 'w \<Rightarrow> panic + 'r \<times> 'w" where
  "fwClient_Delete c ctx interfaceID ruleID opts w =
     with_ignored opts (\<lambda>ignored. fwClient.legacy c (DeleteFirewallRule ctx interfaceID ruleID ignored) w)"

subsubsection \<open>System\<close>

definition systemClient_CheckInitialized ::
  "('r, 'w) systemClient \<Rightarrow> context_Context \<Rightarrow>
   CallOption list \<Rightarrow> 'w \<Rightarrow> panic + 'r \<times> 'w" where
  "systemClient_CheckInitialized c ctx opts w =
     with_ignored opts (\<lambda>ignored. systemClient.legacy c (CheckInitialized ctx ignored) w)"

definition systemClient_Initialize ::
  "('r, 'w) systemClient \<Rightarrow> context_Context \<Rightarrow>
   CallOption list \<Rightarrow> 'w \<Rightarrow> panic + 'r \<times> 'w" where
  "systemClient_Initialize c ctx opts w =
     with_ignored opts (\<lambda>ignored. systemClient.legacy c (Initialize ctx ignored) w)"

definition systemClient_GetVni ::
  "('r, 'w) systemClient \<Rightarrow> context_Context \<Rightarrow> uint32 \<Rightarrow> uint8 \<Rightarrow>
   CallOption list \<Rightarrow> 'w \<Rightarrow> panic + 'r \<times> 'w" where
  "systemClient_GetVni c ctx vni vniType opts w =
     with_ignored opts (\<lambda>ignored. systemClient.legacy c (GetVni ctx vni vniType ignored) w)"

definition systemClient_ResetVni ::
  "('r, 'w) systemClient \<Rightarrow> context_Context \<Rightarrow> uint32 \<Rightarrow> uint8 \<Rightarrow>
   CallOption list \<Rightarrow> 'w \<Rightarrow> panic + 'r \<times> 'w" where
  "systemClient_ResetVni c ctx vni vniType opts w =
     with_ignored opts (\<lambda>ignored. systemClient.legacy c (ResetVni ctx vni vniType ignored) w)"

definition systemClient_GetVersion ::
  "('r, 'w) systemClient \<Rightarrow> context_Context \<Rightarrow> api_Version ptr \<Rightarrow>
   CallOption list \<Rightarrow> 'w \<Rightarrow> panic + 'r \<times> 'w" where
  "systemClient_GetVersion c ctx version opts w =
     with_ignored opts (\<lambda>ignored. systemClient.legacy c (GetVersion ctx version ignored) w)"

subsubsection \<open>Capture\<close>

definition captureClient_Start ::
  "('r, 'w) captureClient \<Rightarrow> context_Context \<Rightarrow> api_CaptureStart ptr \<Rightarrow>
   CallOption list \<Rightarrow> 'w \<Rightarrow> panic + 'r \<times> 'w" where
  "captureClient_Start c ctx capture opts w =
     with_ignored opts (\<lambda>ignored. captureClient.legacy c (CaptureStart ctx capture ignored) w)"

definition captureClient_Stop ::
  "('r, 'w) captureClient \<Rightarrow> context_Context \<Rightarrow>
   CallOption list \<Rightarrow> 'w \<Rightarrow> panic + 'r \<times> 'w" where
  "captureClient_Stop c ctx opts w =
     with_ignored opts (\<lambda>ignored. captureClient.legacy c (CaptureStop ctx ignored) w)"

definition captureClient_Status ::
  "('r, 'w) captureClient \<Rightarrow> context_Context \<Rightarrow>
   CallOption list \<Rightarrow> 'w \<Rightarrow> panic + 'r \<times> 'w" where
  "captureClient_Status c ctx opts w =
     with_ignored opts (\<lambda>ignored. captureClient.legacy c (CaptureStatus ctx ignored) w)"

subsection \<open>Notions used to state the properties\<close>

text \<open>
  The codes an option value contributes: those it leaves in a zero configuration. A \<open>nil\<close>
  option contributes none.
\<close>

definition contributed :: "CallOption \<Rightarrow> uint32 list" where
  "contributed opt =
     (case opt of None \<Rightarrow> [] | Some f \<Rightarrow> elems (ignoredCodes (f zero_callOptions)))"

text \<open>
  A legacy client that makes its calls observable: its state of the world is the log of
  the invocations it has received, and it answers each invocation as \<open>reply\<close> says.
\<close>

definition recorder :: "(legacyCall \<Rightarrow> 'r) \<Rightarrow> ('r, legacyCall list) legacy_Client" where
  "recorder reply call log = (reply call, log @ [call])"

text \<open>All handles in one type, and the client each holds.\<close>

datatype ('r, 'w) handle =
    H_rootAdapter "('r, 'w) rootAdapter"
  | H_lbClient "('r, 'w) lbClient"
  | H_lbPrefixesClient "('r, 'w) lbPrefixesClient"
  | H_lbTargetsClient "('r, 'w) lbTargetsClient"
  | H_ifaceClient "('r, 'w) ifaceClient"
  | H_vipClient "('r, 'w) vipClient"
  | H_ifacePrefixesClient "('r, 'w) ifacePrefixesClient"
  | H_routeClient "('r, 'w) routeClient"
  | H_natClient "('r, 'w) natClient"
  | H_fwClient "('r, 'w) fwClient"
  | H_systemClient "('r, 'w) systemClient"
  | H_captureClient "('r, 'w) captureClient"

fun handle_legacy :: "('r, 'w) handle \<Rightarrow> ('r, 'w) legacy_Client" where
  "handle_legacy (H_rootAdapter r) = rootAdapter.legacy r"
| "handle_legacy (H_lbClient c) = lbClient.legacy c"
| "handle_legacy (H_lbPrefixesClient c) = lbPrefixesClient.legacy c"
| "handle_legacy (H_lbTargetsClient c) = lbTargetsClient.legacy c"
| "handle_legacy (H_ifaceClient c) = ifaceClient.legacy c"
| "handle_legacy (H_vipClient c) = vipClient.legacy c"
| "handle_legacy (H_ifacePrefixesClient c) = ifacePrefixesClient.legacy c"
| "handle_legacy (H_routeClient c) = routeClient.legacy c"
| "handle_legacy (H_natClient c) = natClient.legacy c"
| "handle_legacy (H_fwClient c) = fwClient.legacy c"
| "handle_legacy (H_systemClient c) = systemClient.legacy c"
| "handle_legacy (H_captureClient c) = captureClient.legacy c"

subsection \<open>Handles in memory\<close>

text \<open>
  Every handle the package gives out is a pointer to a struct it allocated
  (\<^verbatim>\<open>&lbClient{legacy: r.legacy}\<close>), and every method has a pointer receiver. A method
  could therefore assign to the receiver's field, and any method could call the legacy
  client. To say that none does either where it should not, the methods are given here
  with their receivers as pointers, acting on a state: the structs allocated so far, in
  the order of allocation (an address is an index; Go's garbage collector frees nothing
  that is still referenced), and the state of the world the legacy client acts on. What a
  method computes from the struct its receiver points to is the function of the same name
  above.
\<close>

record ('r, 'w) state =
  heap :: "('r, 'w) handle list"
  world :: 'w

text \<open>
  Dereferencing a \<open>nil\<close> receiver (\<open>c.legacy\<close>) panics. Go's types exclude the two other
  failures of the lookup, an address not allocated and a struct of another type; they
  are given the same outcome.
\<close>

datatype fault = NilPointerDereference | Panicked panic

definition as_rootAdapter :: "('r, 'w) handle \<Rightarrow> ('r, 'w) rootAdapter option" where
  "as_rootAdapter h = (case h of H_rootAdapter c \<Rightarrow> Some c | _ \<Rightarrow> None)"

definition as_lbClient :: "('r, 'w) handle \<Rightarrow> ('r, 'w) lbClient option" where
  "as_lbClient h = (case h of H_lbClient c \<Rightarrow> Some c | _ \<Rightarrow> None)"

definition as_lbPrefixesClient :: "('r, 'w) handle \<Rightarrow> ('r, 'w) lbPrefixesClient option" where
  "as_lbPrefixesClient h = (case h of H_lbPrefixesClient c \<Rightarrow> Some c | _ \<Rightarrow> None)"

definition as_lbTargetsClient :: "('r, 'w) handle \<Rightarrow> ('r, 'w) lbTargetsClient option" where
  "as_lbTargetsClient h = (case h of H_lbTargetsClient c \<Rightarrow> Some c | _ \<Rightarrow> None)"

definition as_ifaceClient :: "('r, 'w) handle \<Rightarrow> ('r, 'w) ifaceClient option" where
  "as_ifaceClient h = (case h of H_ifaceClient c \<Rightarrow> Some c | _ \<Rightarrow> None)"

definition as_vipClient :: "('r, 'w) handle \<Rightarrow> ('r, 'w) vipClient option" where
  "as_vipClient h = (case h of H_vipClient c \<Rightarrow> Some c | _ \<Rightarrow> None)"

definition as_ifacePrefixesClient :: "('r, 'w) handle \<Rightarrow> ('r, 'w) ifacePrefixesClient option" where
  "as_ifacePrefixesClient h = (case h of H_ifacePrefixesClient c \<Rightarrow> Some c | _ \<Rightarrow> None)"

definition as_routeClient :: "('r, 'w) handle \<Rightarrow> ('r, 'w) routeClient option" where
  "as_routeClient h = (case h of H_routeClient c \<Rightarrow> Some c | _ \<Rightarrow> None)"

definition as_natClient :: "('r, 'w) handle \<Rightarrow> ('r, 'w) natClient option" where
  "as_natClient h = (case h of H_natClient c \<Rightarrow> Some c | _ \<Rightarrow> None)"

definition as_fwClient :: "('r, 'w) handle \<Rightarrow> ('r, 'w) fwClient option" where
  "as_fwClient h = (case h of H_fwClient c \<Rightarrow> Some c | _ \<Rightarrow> None)"

definition as_systemClient :: "('r, 'w) handle \<Rightarrow> ('r, 'w) systemClient option" where
  "as_systemClient h = (case h of H_systemClient c \<Rightarrow> Some c | _ \<Rightarrow> None)"

definition as_captureClient :: "('r, 'w) handle \<Rightarrow> ('r, 'w) captureClient option" where
  "as_captureClient h = (case h of H_captureClient c \<Rightarrow> Some c | _ \<Rightarrow> None)"

definition deref ::
  "(('r, 'w) handle \<Rightarrow> 'v option) \<Rightarrow> 'v ptr \<Rightarrow> ('r, 'w) state \<Rightarrow> fault + 'v" where
  "deref as_struct p s =
     (case p of
        nil_ptr \<Rightarrow> Inl NilPointerDereference
      | Ptr a \<Rightarrow>
          if a < length (heap s)
          then (case as_struct (heap s ! a) of
                  None \<Rightarrow> Inl NilPointerDereference
                | Some v \<Rightarrow> Inr v)
          else Inl NilPointerDereference)"

text \<open>\<^verbatim>\<open>&T{...}\<close>: the struct is allocated at the next address.\<close>

definition new_struct ::
  "('v \<Rightarrow> ('r, 'w) handle) \<Rightarrow> 'v \<Rightarrow> ('r, 'w) state \<Rightarrow> 'v ptr \<times> ('r, 'w) state" where
  "new_struct as_handle v s = (Ptr (length (heap s)), s\<lparr>heap := heap s @ [as_handle v]\<rparr>)"

text \<open>
  An accessor reads the receiver's struct and returns the address of the struct it
  allocates. An operation reads the receiver's struct and runs its one statement, which
  acts on the world.
\<close>

definition accessor_method ::
  "(('r, 'w) handle \<Rightarrow> 'v option) \<Rightarrow> ('u \<Rightarrow> ('r, 'w) handle) \<Rightarrow> ('v \<Rightarrow> 'u) \<Rightarrow>
   'v ptr \<Rightarrow> ('r, 'w) state \<Rightarrow> fault + 'u ptr \<times> ('r, 'w) state" where
  "accessor_method as_struct as_handle body r s =
     (case deref as_struct r s of
        Inl e \<Rightarrow> Inl e
      | Inr v \<Rightarrow> Inr (new_struct as_handle (body v) s))"

definition in_world ::
  "('w \<Rightarrow> panic + 'a \<times> 'w) \<Rightarrow> ('r, 'w) state \<Rightarrow> fault + 'a \<times> ('r, 'w) state" where
  "in_world body s =
     (case body (world s) of
        Inl p \<Rightarrow> Inl (Panicked p)
      | Inr (a, w') \<Rightarrow> Inr (a, s\<lparr>world := w'\<rparr>))"

definition operation_method ::
  "(('r, 'w) handle \<Rightarrow> 'v option) \<Rightarrow> ('v \<Rightarrow> 'w \<Rightarrow> panic + 'a \<times> 'w) \<Rightarrow>
   'v ptr \<Rightarrow> ('r, 'w) state \<Rightarrow> fault + 'a \<times> ('r, 'w) state" where
  "operation_method as_struct body c s =
     (case deref as_struct c s of
        Inl e \<Rightarrow> Inl e
      | Inr v \<Rightarrow> in_world (body v) s)"

text \<open>\<open>AsV2\<close> returns \<^verbatim>\<open>&rootAdapter{legacy: c}\<close>.\<close>

definition AsV2_ptr ::
  "('r, 'w) legacy_Client \<Rightarrow> ('r, 'w) state \<Rightarrow> ('r, 'w) rootAdapter ptr \<times> ('r, 'w) state" where
  "AsV2_ptr c s = new_struct H_rootAdapter (AsV2 c) s"

text \<open>The accessors, on pointers.\<close>

definition rootAdapter_LoadBalancers_ptr ::
  "('r, 'w) rootAdapter ptr \<Rightarrow> ('r, 'w) state \<Rightarrow> fault + ('r, 'w) lbClient ptr \<times> ('r, 'w) state" where
  "rootAdapter_LoadBalancers_ptr r = accessor_method as_rootAdapter H_lbClient rootAdapter_LoadBalancers r"

definition rootAdapter_Interfaces_ptr ::
  "('r, 'w) rootAdapter ptr \<Rightarrow> ('r, 'w) state \<Rightarrow> fault + ('r, 'w) ifaceClient ptr \<times> ('r, 'w) state" where
  "rootAdapter_Interfaces_ptr r = accessor_method as_rootAdapter H_ifaceClient rootAdapter_Interfaces r"

definition rootAdapter_Routes_ptr ::
  "('r, 'w) rootAdapter ptr \<Rightarrow> ('r, 'w) state \<Rightarrow> fault + ('r, 'w) routeClient ptr \<times> ('r, 'w) state" where
  "rootAdapter_Routes_ptr r = accessor_method as_rootAdapter H_routeClient rootAdapter_Routes r"

definition rootAdapter_NATs_ptr ::
  "('r, 'w) rootAdapter ptr \<Rightarrow> ('r, 'w) state \<Rightarrow> fault + ('r, 'w) natClient ptr \<times> ('r, 'w) state" where
  "rootAdapter_NATs_ptr r = accessor_method as_rootAdapter H_natClient rootAdapter_NATs r"

definition rootAdapter_Firewall_ptr ::
  "('r, 'w) rootAdapter ptr \<Rightarrow> ('r, 'w) state \<Rightarrow> fault + ('r, 'w) fwClient ptr \<times> ('r, 'w) state" where
  "rootAdapter_Firewall_ptr r = accessor_method as_rootAdapter H_fwClient rootAdapter_Firewall r"

definition rootAdapter_System_ptr ::
  "('r, 'w) rootAdapter ptr \<Rightarrow> ('r, 'w) state \<Rightarrow> fault + ('r, 'w) systemClient ptr \<times> ('r, 'w) state" where
  "rootAdapter_System_ptr r = accessor_method as_rootAdapter H_systemClient rootAdapter_System r"

definition rootAdapter_Capture_ptr ::
  "('r, 'w) rootAdapter ptr \<Rightarrow> ('r, 'w) state \<Rightarrow> fault + ('r, 'w) captureClient ptr \<times> ('r, 'w) state" where
  "rootAdapter_Capture_ptr r = accessor_method as_rootAdapter H_captureClient rootAdapter_Capture r"

definition lbClient_Prefixes_ptr ::
  "('r, 'w) lbClient ptr \<Rightarrow> ('r, 'w) state \<Rightarrow> fault + ('r, 'w) lbPrefixesClient ptr \<times> ('r, 'w) state" where
  "lbClient_Prefixes_ptr c = accessor_method as_lbClient H_lbPrefixesClient lbClient_Prefixes c"

definition lbClient_Targets_ptr ::
  "('r, 'w) lbClient ptr \<Rightarrow> ('r, 'w) state \<Rightarrow> fault + ('r, 'w) lbTargetsClient ptr \<times> ('r, 'w) state" where
  "lbClient_Targets_ptr c = accessor_method as_lbClient H_lbTargetsClient lbClient_Targets c"

definition ifaceClient_VIP_ptr ::
  "('r, 'w) ifaceClient ptr \<Rightarrow> ('r, 'w) state \<Rightarrow> fault + ('r, 'w) vipClient ptr \<times> ('r, 'w) state" where
  "ifaceClient_VIP_ptr c = accessor_method as_ifaceClient H_vipClient ifaceClient_VIP c"

definition ifaceClient_Prefixes_ptr ::
  "('r, 'w) ifaceClient ptr \<Rightarrow> ('r, 'w) state \<Rightarrow> fault + ('r, 'w) ifacePrefixesClient ptr \<times> ('r, 'w) state" where
  "ifaceClient_Prefixes_ptr c = accessor_method as_ifaceClient H_ifacePrefixesClient ifaceClient_Prefixes c"

definition ifaceClient_Firewall_ptr ::
  "('r, 'w) ifaceClient ptr \<Rightarrow> ('r, 'w) state \<Rightarrow> fault + ('r, 'w) fwClient ptr \<times> ('r, 'w) state" where
  "ifaceClient_Firewall_ptr c = accessor_method as_ifaceClient H_fwClient ifaceClient_Firewall c"

text \<open>The operations, on pointers.\<close>

definition lbClient_Get_ptr ::
  "('r, 'w) lbClient ptr \<Rightarrow> context_Context \<Rightarrow> string \<Rightarrow> CallOption list \<Rightarrow>
   ('r, 'w) state \<Rightarrow> fault + 'r \<times> ('r, 'w) state" where
  "lbClient_Get_ptr c ctx id' opts =
     operation_method as_lbClient (\<lambda>v. lbClient_Get v ctx id' opts) c"

definition lbClient_List_ptr ::
  "('r, 'w) lbClient ptr \<Rightarrow> context_Context \<Rightarrow> CallOption list \<Rightarrow>
   ('r, 'w) state \<Rightarrow> fault + 'r \<times> ('r, 'w) state" where
  "lbClient_List_ptr c ctx opts =
     operation_method as_lbClient (\<lambda>v. lbClient_List v ctx opts) c"

definition lbClient_Create_ptr ::
  "('r, 'w) lbClient ptr \<Rightarrow> context_Context \<Rightarrow> api_LoadBalancer ptr \<Rightarrow> CallOption list \<Rightarrow>
   ('r, 'w) state \<Rightarrow> fault + 'r \<times> ('r, 'w) state" where
  "lbClient_Create_ptr c ctx lb opts =
     operation_method as_lbClient (\<lambda>v. lbClient_Create v ctx lb opts) c"

definition lbClient_Delete_ptr ::
  "('r, 'w) lbClient ptr \<Rightarrow> context_Context \<Rightarrow> string \<Rightarrow> CallOption list \<Rightarrow>
   ('r, 'w) state \<Rightarrow> fault + 'r \<times> ('r, 'w) state" where
  "lbClient_Delete_ptr c ctx id' opts =
     operation_method as_lbClient (\<lambda>v. lbClient_Delete v ctx id' opts) c"

definition lbPrefixesClient_List_ptr ::
  "('r, 'w) lbPrefixesClient ptr \<Rightarrow> context_Context \<Rightarrow> string \<Rightarrow> CallOption list \<Rightarrow>
   ('r, 'w) state \<Rightarrow> fault + 'r \<times> ('r, 'w) state" where
  "lbPrefixesClient_List_ptr c ctx interfaceID opts =
     operation_method as_lbPrefixesClient (\<lambda>v. lbPrefixesClient_List v ctx interfaceID opts) c"

definition lbPrefixesClient_Create_ptr ::
  "('r, 'w) lbPrefixesClient ptr \<Rightarrow> context_Context \<Rightarrow> api_LoadBalancerPrefix ptr \<Rightarrow> CallOption list \<Rightarrow>
   ('r, 'w) state \<Rightarrow> fault + 'r \<times> ('r, 'w) state" where
  "lbPrefixesClient_Create_ptr c ctx prefix opts =
     operation_method as_lbPrefixesClient (\<lambda>v. lbPrefixesClient_Create v ctx prefix opts) c"

definition lbPrefixesClient_Delete_ptr ::
  "('r, 'w) lbPrefixesClient ptr \<Rightarrow> context_Context \<Rightarrow> string \<Rightarrow> netip_Prefix ptr \<Rightarrow> CallOption list \<Rightarrow>
   ('r, 'w) state \<Rightarrow> fault + 'r \<times> ('r, 'w) state" where
  "lbPrefixesClient_Delete_ptr c ctx interfaceID prefix opts =
     operation_method as_lbPrefixesClient (\<lambda>v. lbPrefixesClient_Delete v ctx interfaceID prefix opts) c"

definition lbTargetsClient_List_ptr ::
  "('r, 'w) lbTargetsClient ptr \<Rightarrow> context_Context \<Rightarrow> string \<Rightarrow> CallOption list \<Rightarrow>
   ('r, 'w) state \<Rightarrow> fault + 'r \<times> ('r, 'w) state" where
  "lbTargetsClient_List_ptr c ctx loadBalancerID opts =
     operation_method as_lbTargetsClient (\<lambda>v. lbTargetsClient_List v ctx loadBalancerID opts) c"

definition lbTargetsClient_Create_ptr ::
  "('r, 'w) lbTargetsClient ptr \<Rightarrow> context_Context \<Rightarrow> api_LoadBalancerTarget ptr \<Rightarrow> CallOption list \<Rightarrow>
   ('r, 'w) state \<Rightarrow> fault + 'r \<times> ('r, 'w) state" where
  "lbTargetsClient_Create_ptr c ctx target opts =
     operation_method as_lbTargetsClient (\<lambda>v. lbTargetsClient_Create v ctx target opts) c"

definition lbTargetsClient_Delete_ptr ::
  "('r, 'w) lbTargetsClient ptr \<Rightarrow> context_Context \<Rightarrow> string \<Rightarrow> netip_Addr ptr \<Rightarrow> CallOption list \<Rightarrow>
   ('r, 'w) state \<Rightarrow> fault + 'r \<times> ('r, 'w) state" where
  "lbTargetsClient_Delete_ptr c ctx lbID targetIP opts =
     operation_method as_lbTargetsClient (\<lambda>v. lbTargetsClient_Delete v ctx lbID targetIP opts) c"

definition ifaceClient_Get_ptr ::
  "('r, 'w) ifaceClient ptr \<Rightarrow> context_Context \<Rightarrow> string \<Rightarrow> CallOption list \<Rightarrow>
   ('r, 'w) state \<Rightarrow> fault + 'r \<times> ('r, 'w) state" where
  "ifaceClient_Get_ptr c ctx id' opts =
     operation_method as_ifaceClient (\<lambda>v. ifaceClient_Get v ctx id' opts) c"

definition ifaceClient_List_ptr ::
  "('r, 'w) ifaceClient ptr \<Rightarrow> context_Context \<Rightarrow> CallOption list \<Rightarrow>
   ('r, 'w) state \<Rightarrow> fault + 'r \<times> ('r, 'w) state" where
  "ifaceClient_List_ptr c ctx opts =
     operation_method as_ifaceClient (\<lambda>v. ifaceClient_List v ctx opts) c"

definition ifaceClient_Create_ptr ::
  "('r, 'w) ifaceClient ptr \<Rightarrow> context_Context \<Rightarrow> api_Interface ptr \<Rightarrow> CallOption list \<Rightarrow>
   ('r, 'w) state \<Rightarrow> fault + 'r \<times> ('r, 'w) state" where
  "ifaceClient_Create_ptr c ctx iface opts =
     operation_method as_ifaceClient (\<lambda>v. ifaceClient_Create v ctx iface opts) c"

definition ifaceClient_Delete_ptr ::
  "('r, 'w) ifaceClient ptr \<Rightarrow> context_Context \<Rightarrow> string \<Rightarrow> CallOption list \<Rightarrow>
   ('r, 'w) state \<Rightarrow> fault + 'r \<times> ('r, 'w) state" where
  "ifaceClient_Delete_ptr c ctx id' opts =
     operation_method as_ifaceClient (\<lambda>v. ifaceClient_Delete v ctx id' opts) c"

definition vipClient_Get_ptr ::
  "('r, 'w) vipClient ptr \<Rightarrow> context_Context \<Rightarrow> string \<Rightarrow> CallOption list \<Rightarrow>
   ('r, 'w) state \<Rightarrow> fault + 'r \<times> ('r, 'w) state" where
  "vipClient_Get_ptr c ctx interfaceID opts =
     operation_method as_vipClient (\<lambda>v. vipClient_Get v ctx interfaceID opts) c"

definition vipClient_Create_ptr ::
  "('r, 'w) vipClient ptr \<Rightarrow> context_Context \<Rightarrow> api_VirtualIP ptr \<Rightarrow> CallOption list \<Rightarrow>
   ('r, 'w) state \<Rightarrow> fault + 'r \<times> ('r, 'w) state" where
  "vipClient_Create_ptr c ctx vip opts =
     operation_method as_vipClient (\<lambda>v. vipClient_Create v ctx vip opts) c"

definition vipClient_Delete_ptr ::
  "('r, 'w) vipClient ptr \<Rightarrow> context_Context \<Rightarrow> string \<Rightarrow> CallOption list \<Rightarrow>
   ('r, 'w) state \<Rightarrow> fault + 'r \<times> ('r, 'w) state" where
  "vipClient_Delete_ptr c ctx interfaceID opts =
     operation_method as_vipClient (\<lambda>v. vipClient_Delete v ctx interfaceID opts) c"

definition ifacePrefixesClient_List_ptr ::
  "('r, 'w) ifacePrefixesClient ptr \<Rightarrow> context_Context \<Rightarrow> string \<Rightarrow> CallOption list \<Rightarrow>
   ('r, 'w) state \<Rightarrow> fault + 'r \<times> ('r, 'w) state" where
  "ifacePrefixesClient_List_ptr c ctx interfaceID opts =
     operation_method as_ifacePrefixesClient (\<lambda>v. ifacePrefixesClient_List v ctx interfaceID opts) c"

definition ifacePrefixesClient_Create_ptr ::
  "('r, 'w) ifacePrefixesClient ptr \<Rightarrow> context_Context \<Rightarrow> api_Prefix ptr \<Rightarrow> CallOption list \<Rightarrow>
   ('r, 'w) state \<Rightarrow> fault + 'r \<times> ('r, 'w) state" where
  "ifacePrefixesClient_Create_ptr c ctx prefix opts =
     operation_method as_ifacePrefixesClient (\<lambda>v. ifacePrefixesClient_Create v ctx prefix opts) c"

definition ifacePrefixesClient_Delete_ptr ::
  "('r, 'w) ifacePrefixesClient ptr \<Rightarrow> context_Context \<Rightarrow> string \<Rightarrow> netip_Prefix ptr \<Rightarrow> CallOption list \<Rightarrow>
   ('r, 'w) state \<Rightarrow> fault + 'r \<times> ('r, 'w) state" where
  "ifacePrefixesClient_Delete_ptr c ctx interfaceID prefix opts =
     operation_method as_ifacePrefixesClient (\<lambda>v. ifacePrefixesClient_Delete v ctx interfaceID prefix opts) c"

definition routeClient_List_ptr ::
  "('r, 'w) routeClient ptr \<Rightarrow> context_Context \<Rightarrow> uint32 \<Rightarrow> CallOption list \<Rightarrow>
   ('r, 'w) state \<Rightarrow> fault + 'r \<times> ('r, 'w) state" where
  "routeClient_List_ptr c ctx vni opts =
     operation_method as_routeClient (\<lambda>v. routeClient_List v ctx vni opts) c"

definition routeClient_Create_ptr ::
  "('r, 'w) routeClient ptr \<Rightarrow> context_Context \<Rightarrow> api_Route ptr \<Rightarrow> CallOption list \<Rightarrow>
   ('r, 'w) state \<Rightarrow> fault + 'r \<times> ('r, 'w) state" where
  "routeClient_Create_ptr c ctx route opts =
     operation_method as_routeClient (\<lambda>v. routeClient_Create v ctx route opts) c"

definition routeClient_Delete_ptr ::
  "('r, 'w) routeClient ptr \<Rightarrow> context_Context \<Rightarrow> uint32 \<Rightarrow> netip_Prefix ptr \<Rightarrow> CallOption list \<Rightarrow>
   ('r, 'w) state \<Rightarrow> fault + 'r \<times> ('r, 'w) state" where
  "routeClient_Delete_ptr c ctx vni prefix opts =
     operation_method as_routeClient (\<lambda>v. routeClient_Delete v ctx vni prefix opts) c"

definition natClient_Get_ptr ::
  "('r, 'w) natClient ptr \<Rightarrow> context_Context \<Rightarrow> string \<Rightarrow> CallOption list \<Rightarrow>
   ('r, 'w) state \<Rightarrow> fault + 'r \<times> ('r, 'w) state" where
  "natClient_Get_ptr c ctx interfaceID opts =
     operation_method as_natClient (\<lambda>v. natClient_Get v ctx interfaceID opts) c"

definition natClient_Create_ptr ::
  "('r, 'w) natClient ptr \<Rightarrow> context_Context \<Rightarrow> api_Nat ptr \<Rightarrow> CallOption list \<Rightarrow>
   ('r, 'w) state \<Rightarrow> fault + 'r \<times> ('r, 'w) state" where
  "natClient_Create_ptr c ctx nat' opts =
     operation_method as_natClient (\<lambda>v. natClient_Create v ctx nat' opts) c"

definition natClient_Delete_ptr ::
  "('r, 'w) natClient ptr \<Rightarrow> context_Context \<Rightarrow> string \<Rightarrow> CallOption list \<Rightarrow>
   ('r, 'w) state \<Rightarrow> fault + 'r \<times> ('r, 'w) state" where
  "natClient_Delete_ptr c ctx interfaceID opts =
     operation_method as_natClient (\<lambda>v. natClient_Delete v ctx interfaceID opts) c"

definition natClient_ListAny_ptr ::
  "('r, 'w) natClient ptr \<Rightarrow> context_Context \<Rightarrow> netip_Addr ptr \<Rightarrow> CallOption list \<Rightarrow>
   ('r, 'w) state \<Rightarrow> fault + 'r \<times> ('r, 'w) state" where
  "natClient_ListAny_ptr c ctx natIP opts =
     operation_method as_natClient (\<lambda>v. natClient_ListAny v ctx natIP opts) c"

definition natClient_ListLocal_ptr ::
  "('r, 'w) natClient ptr \<Rightarrow> context_Context \<Rightarrow> netip_Addr ptr \<Rightarrow> CallOption list \<Rightarrow>
   ('r, 'w) state \<Rightarrow> fault + 'r \<times> ('r, 'w) state" where
  "natClient_ListLocal_ptr c ctx natIP opts =
     operation_method as_natClient (\<lambda>v. natClient_ListLocal v ctx natIP opts) c"

definition natClient_ListNeighbors_ptr ::
  "('r, 'w) natClient ptr \<Rightarrow> context_Context \<Rightarrow> netip_Addr ptr \<Rightarrow> CallOption list \<Rightarrow>
   ('r, 'w) state \<Rightarrow> fault + 'r \<times> ('r, 'w) state" where
  "natClient_ListNeighbors_ptr c ctx natIP opts =
     operation_method as_natClient (\<lambda>v. natClient_ListNeighbors v ctx natIP opts) c"

definition natClient_CreateNeighbor_ptr ::
  "('r, 'w) natClient ptr \<Rightarrow> context_Context \<Rightarrow> api_NeighborNat ptr \<Rightarrow> CallOption list \<Rightarrow>
   ('r, 'w) state \<Rightarrow> fault + 'r \<times> ('r, 'w) state" where
  "natClient_CreateNeighbor_ptr c ctx n opts =
     operation_method as_natClient (\<lambda>v. natClient_CreateNeighbor v ctx n opts) c"

definition natClient_DeleteNeighbor_ptr ::
  "('r, 'w) natClient ptr \<Rightarrow> context_Context \<Rightarrow> api_NeighborNat ptr \<Rightarrow> CallOption list \<Rightarrow>
   ('r, 'w) state \<Rightarrow> fault + 'r \<times> ('r, 'w) state" where
  "natClient_DeleteNeighbor_ptr c ctx n opts =
     operation_method as_natClient (\<lambda>v. natClient_DeleteNeighbor v ctx n opts) c"

definition fwClient_List_ptr ::
  "('r, 'w) fwClient ptr \<Rightarrow> context_Context \<Rightarrow> string \<Rightarrow> CallOption list \<Rightarrow>
   ('r, 'w) state \<Rightarrow> fault + 'r \<times> ('r, 'w) state" where
  "fwClient_List_ptr c ctx interfaceID opts =
     operation_method as_fwClient (\<lambda>v. fwClient_List v ctx interfaceID opts) c"

definition fwClient_Get_ptr ::
  "('r, 'w) fwClient ptr \<Rightarrow> context_Context \<Rightarrow> string \<Rightarrow> string \<Rightarrow> CallOption list \<Rightarrow>
   ('r, 'w) state \<Rightarrow> fault + 'r \<times> ('r, 'w) state" where
  "fwClient_Get_ptr c ctx interfaceID ruleID opts =
     operation_method as_fwClient (\<lambda>v. fwClient_Get v ctx interfaceID ruleID opts) c"

definition fwClient_Create_ptr ::
  "('r, 'w) fwClient ptr \<Rightarrow> context_Context \<Rightarrow> api_FirewallRule ptr \<Rightarrow> CallOption list \<Rightarrow>
   ('r, 'w) state \<Rightarrow> fault + 'r \<times> ('r, 'w) state" where
  "fwClient_Create_ptr c ctx rule opts =
     operation_method as_fwClient (\<lambda>v. fwClient_Create v ctx rule opts) c"

definition fwClient_Delete_ptr ::
  "('r, 'w) fwClient ptr \<Rightarrow> context_Context \<Rightarrow> string \<Rightarrow> string \<Rightarrow> CallOption list \<Rightarrow>
   ('r, 'w) state \<Rightarrow> fault + 'r \<times> ('r, 'w) state" where
  "fwClient_Delete_ptr c ctx interfaceID ruleID opts =
     operation_method as_fwClient (\<lambda>v. fwClient_Delete v ctx interfaceID ruleID opts) c"

definition systemClient_CheckInitialized_ptr ::
  "('r, 'w) systemClient ptr \<Rightarrow> context_Context \<Rightarrow> CallOption list \<Rightarrow>
   ('r, 'w) state \<Rightarrow> fault + 'r \<times> ('r, 'w) state" where
  "systemClient_CheckInitialized_ptr c ctx opts =
     operation_method as_systemClient (\<lambda>v. systemClient_CheckInitialized v ctx opts) c"

definition systemClient_Initialize_ptr ::
  "('r, 'w) systemClient ptr \<Rightarrow> context_Context \<Rightarrow> CallOption list \<Rightarrow>
   ('r, 'w) state \<Rightarrow> fault + 'r \<times> ('r, 'w) state" where
  "systemClient_Initialize_ptr c ctx opts =
     operation_method as_systemClient (\<lambda>v. systemClient_Initialize v ctx opts) c"

definition systemClient_GetVni_ptr ::
  "('r, 'w) systemClient ptr \<Rightarrow> context_Context \<Rightarrow> uint32 \<Rightarrow> uint8 \<Rightarrow> CallOption list \<Rightarrow>
   ('r, 'w) state \<Rightarrow> fault + 'r \<times> ('r, 'w) state" where
  "systemClient_GetVni_ptr c ctx vni vniType opts =
     operation_method as_systemClient (\<lambda>v. systemClient_GetVni v ctx vni vniType opts) c"

definition systemClient_ResetVni_ptr ::
  "('r, 'w) systemClient ptr \<Rightarrow> context_Context \<Rightarrow> uint32 \<Rightarrow> uint8 \<Rightarrow> CallOption list \<Rightarrow>
   ('r, 'w) state \<Rightarrow> fault + 'r \<times> ('r, 'w) state" where
  "systemClient_ResetVni_ptr c ctx vni vniType opts =
     operation_method as_systemClient (\<lambda>v. systemClient_ResetVni v ctx vni vniType opts) c"

definition systemClient_GetVersion_ptr ::
  "('r, 'w) systemClient ptr \<Rightarrow> context_Context \<Rightarrow> api_Version ptr \<Rightarrow> CallOption list \<Rightarrow>
   ('r, 'w) state \<Rightarrow> fault + 'r \<times> ('r, 'w) state" where
  "systemClient_GetVersion_ptr c ctx version opts =
     operation_method as_systemClient (\<lambda>v. systemClient_GetVersion v ctx version opts) c"

definition captureClient_Start_ptr ::
  "('r, 'w) captureClient ptr \<Rightarrow> context_Context \<Rightarrow> api_CaptureStart ptr \<Rightarrow> CallOption list \<Rightarrow>
   ('r, 'w) state \<Rightarrow> fault + 'r \<times> ('r, 'w) state" where
  "captureClient_Start_ptr c ctx capture opts =
     operation_method as_captureClient (\<lambda>v. captureClient_Start v ctx capture opts) c"

definition captureClient_Stop_ptr ::
  "('r, 'w) captureClient ptr \<Rightarrow> context_Context \<Rightarrow> CallOption list \<Rightarrow>
   ('r, 'w) state \<Rightarrow> fault + 'r \<times> ('r, 'w) state" where
  "captureClient_Stop_ptr c ctx opts =
     operation_method as_captureClient (\<lambda>v. captureClient_Stop v ctx opts) c"

definition captureClient_Status_ptr ::
  "('r, 'w) captureClient ptr \<Rightarrow> context_Context \<Rightarrow> CallOption list \<Rightarrow>
   ('r, 'w) state \<Rightarrow> fault + 'r \<times> ('r, 'w) state" where
  "captureClient_Status_ptr c ctx opts =
     operation_method as_captureClient (\<lambda>v. captureClient_Status v ctx opts) c"





text \<open>
  One call of a method of the package, from a state and the addresses \<open>D\<close> of the handles
  derived so far from the root under consideration: a handle an accessor returns is
  derived when the receiver is. \<open>run\<close> is any sequence of such calls.
\<close>

inductive method_call ::
  "('r, 'w) state \<times> nat set \<Rightarrow> ('r, 'w) state \<times> nat set \<Rightarrow> bool" where
  call_AsV2: "AsV2_ptr c s = (p, s') \<Longrightarrow> method_call (s, D) (s', D)"
| call_rootAdapter_LoadBalancers:
    "rootAdapter_LoadBalancers_ptr (Ptr a) s = Inr (Ptr q, s') \<Longrightarrow>
     method_call (s, D) (s', if a \<in> D then insert q D else D)"
| call_rootAdapter_Interfaces:
    "rootAdapter_Interfaces_ptr (Ptr a) s = Inr (Ptr q, s') \<Longrightarrow>
     method_call (s, D) (s', if a \<in> D then insert q D else D)"
| call_rootAdapter_Routes:
    "rootAdapter_Routes_ptr (Ptr a) s = Inr (Ptr q, s') \<Longrightarrow>
     method_call (s, D) (s', if a \<in> D then insert q D else D)"
| call_rootAdapter_NATs:
    "rootAdapter_NATs_ptr (Ptr a) s = Inr (Ptr q, s') \<Longrightarrow>
     method_call (s, D) (s', if a \<in> D then insert q D else D)"
| call_rootAdapter_Firewall:
    "rootAdapter_Firewall_ptr (Ptr a) s = Inr (Ptr q, s') \<Longrightarrow>
     method_call (s, D) (s', if a \<in> D then insert q D else D)"
| call_rootAdapter_System:
    "rootAdapter_System_ptr (Ptr a) s = Inr (Ptr q, s') \<Longrightarrow>
     method_call (s, D) (s', if a \<in> D then insert q D else D)"
| call_rootAdapter_Capture:
    "rootAdapter_Capture_ptr (Ptr a) s = Inr (Ptr q, s') \<Longrightarrow>
     method_call (s, D) (s', if a \<in> D then insert q D else D)"
| call_lbClient_Prefixes:
    "lbClient_Prefixes_ptr (Ptr a) s = Inr (Ptr q, s') \<Longrightarrow>
     method_call (s, D) (s', if a \<in> D then insert q D else D)"
| call_lbClient_Targets:
    "lbClient_Targets_ptr (Ptr a) s = Inr (Ptr q, s') \<Longrightarrow>
     method_call (s, D) (s', if a \<in> D then insert q D else D)"
| call_ifaceClient_VIP:
    "ifaceClient_VIP_ptr (Ptr a) s = Inr (Ptr q, s') \<Longrightarrow>
     method_call (s, D) (s', if a \<in> D then insert q D else D)"
| call_ifaceClient_Prefixes:
    "ifaceClient_Prefixes_ptr (Ptr a) s = Inr (Ptr q, s') \<Longrightarrow>
     method_call (s, D) (s', if a \<in> D then insert q D else D)"
| call_ifaceClient_Firewall:
    "ifaceClient_Firewall_ptr (Ptr a) s = Inr (Ptr q, s') \<Longrightarrow>
     method_call (s, D) (s', if a \<in> D then insert q D else D)"
| call_lbClient_Get:
    "lbClient_Get_ptr c ctx id' opts s = Inr (res, s') \<Longrightarrow> method_call (s, D) (s', D)"
| call_lbClient_List:
    "lbClient_List_ptr c ctx opts s = Inr (res, s') \<Longrightarrow> method_call (s, D) (s', D)"
| call_lbClient_Create:
    "lbClient_Create_ptr c ctx lb opts s = Inr (res, s') \<Longrightarrow> method_call (s, D) (s', D)"
| call_lbClient_Delete:
    "lbClient_Delete_ptr c ctx id' opts s = Inr (res, s') \<Longrightarrow> method_call (s, D) (s', D)"
| call_lbPrefixesClient_List:
    "lbPrefixesClient_List_ptr c ctx interfaceID opts s = Inr (res, s') \<Longrightarrow> method_call (s, D) (s', D)"
| call_lbPrefixesClient_Create:
    "lbPrefixesClient_Create_ptr c ctx prefix opts s = Inr (res, s') \<Longrightarrow> method_call (s, D) (s', D)"
| call_lbPrefixesClient_Delete:
    "lbPrefixesClient_Delete_ptr c ctx interfaceID prefix opts s = Inr (res, s') \<Longrightarrow> method_call (s, D) (s', D)"
| call_lbTargetsClient_List:
    "lbTargetsClient_List_ptr c ctx loadBalancerID opts s = Inr (res, s') \<Longrightarrow> method_call (s, D) (s', D)"
| call_lbTargetsClient_Create:
    "lbTargetsClient_Create_ptr c ctx target opts s = Inr (res, s') \<Longrightarrow> method_call (s, D) (s', D)"
| call_lbTargetsClient_Delete:
    "lbTargetsClient_Delete_ptr c ctx lbID targetIP opts s = Inr (res, s') \<Longrightarrow> method_call (s, D) (s', D)"
| call_ifaceClient_Get:
    "ifaceClient_Get_ptr c ctx id' opts s = Inr (res, s') \<Longrightarrow> method_call (s, D) (s', D)"
| call_ifaceClient_List:
    "ifaceClient_List_ptr c ctx opts s = Inr (res, s') \<Longrightarrow> method_call (s, D) (s', D)"
| call_ifaceClient_Create:
    "ifaceClient_Create_ptr c ctx iface opts s = Inr (res, s') \<Longrightarrow> method_call (s, D) (s', D)"
| call_ifaceClient_Delete:
    "ifaceClient_Delete_ptr c ctx id' opts s = Inr (res, s') \<Longrightarrow> method_call (s, D) (s', D)"
| call_vipClient_Get:
    "vipClient_Get_ptr c ctx interfaceID opts s = Inr (res, s') \<Longrightarrow> method_call (s, D) (s', D)"
| call_vipClient_Create:
    "vipClient_Create_ptr c ctx vip opts s = Inr (res, s') \<Longrightarrow> method_call (s, D) (s', D)"
| call_vipClient_Delete:
    "vipClient_Delete_ptr c ctx interfaceID opts s = Inr (res, s') \<Longrightarrow> method_call (s, D) (s', D)"
| call_ifacePrefixesClient_List:
    "ifacePrefixesClient_List_ptr c ctx interfaceID opts s = Inr (res, s') \<Longrightarrow> method_call (s, D) (s', D)"
| call_ifacePrefixesClient_Create:
    "ifacePrefixesClient_Create_ptr c ctx prefix opts s = Inr (res, s') \<Longrightarrow> method_call (s, D) (s', D)"
| call_ifacePrefixesClient_Delete:
    "ifacePrefixesClient_Delete_ptr c ctx interfaceID prefix opts s = Inr (res, s') \<Longrightarrow> method_call (s, D) (s', D)"
| call_routeClient_List:
    "routeClient_List_ptr c ctx vni opts s = Inr (res, s') \<Longrightarrow> method_call (s, D) (s', D)"
| call_routeClient_Create:
    "routeClient_Create_ptr c ctx route opts s = Inr (res, s') \<Longrightarrow> method_call (s, D) (s', D)"
| call_routeClient_Delete:
    "routeClient_Delete_ptr c ctx vni prefix opts s = Inr (res, s') \<Longrightarrow> method_call (s, D) (s', D)"
| call_natClient_Get:
    "natClient_Get_ptr c ctx interfaceID opts s = Inr (res, s') \<Longrightarrow> method_call (s, D) (s', D)"
| call_natClient_Create:
    "natClient_Create_ptr c ctx nat' opts s = Inr (res, s') \<Longrightarrow> method_call (s, D) (s', D)"
| call_natClient_Delete:
    "natClient_Delete_ptr c ctx interfaceID opts s = Inr (res, s') \<Longrightarrow> method_call (s, D) (s', D)"
| call_natClient_ListAny:
    "natClient_ListAny_ptr c ctx natIP opts s = Inr (res, s') \<Longrightarrow> method_call (s, D) (s', D)"
| call_natClient_ListLocal:
    "natClient_ListLocal_ptr c ctx natIP opts s = Inr (res, s') \<Longrightarrow> method_call (s, D) (s', D)"
| call_natClient_ListNeighbors:
    "natClient_ListNeighbors_ptr c ctx natIP opts s = Inr (res, s') \<Longrightarrow> method_call (s, D) (s', D)"
| call_natClient_CreateNeighbor:
    "natClient_CreateNeighbor_ptr c ctx n opts s = Inr (res, s') \<Longrightarrow> method_call (s, D) (s', D)"
| call_natClient_DeleteNeighbor:
    "natClient_DeleteNeighbor_ptr c ctx n opts s = Inr (res, s') \<Longrightarrow> method_call (s, D) (s', D)"
| call_fwClient_List:
    "fwClient_List_ptr c ctx interfaceID opts s = Inr (res, s') \<Longrightarrow> method_call (s, D) (s', D)"
| call_fwClient_Get:
    "fwClient_Get_ptr c ctx interfaceID ruleID opts s = Inr (res, s') \<Longrightarrow> method_call (s, D) (s', D)"
| call_fwClient_Create:
    "fwClient_Create_ptr c ctx rule opts s = Inr (res, s') \<Longrightarrow> method_call (s, D) (s', D)"
| call_fwClient_Delete:
    "fwClient_Delete_ptr c ctx interfaceID ruleID opts s = Inr (res, s') \<Longrightarrow> method_call (s, D) (s', D)"
| call_systemClient_CheckInitialized:
    "systemClient_CheckInitialized_ptr c ctx opts s = Inr (res, s') \<Longrightarrow> method_call (s, D) (s', D)"
| call_systemClient_Initialize:
    "systemClient_Initialize_ptr c ctx opts s = Inr (res, s') \<Longrightarrow> method_call (s, D) (s', D)"
| call_systemClient_GetVni:
    "systemClient_GetVni_ptr c ctx vni vniType opts s = Inr (res, s') \<Longrightarrow> method_call (s, D) (s', D)"
| call_systemClient_ResetVni:
    "systemClient_ResetVni_ptr c ctx vni vniType opts s = Inr (res, s') \<Longrightarrow> method_call (s, D) (s', D)"
| call_systemClient_GetVersion:
    "systemClient_GetVersion_ptr c ctx version opts s = Inr (res, s') \<Longrightarrow> method_call (s, D) (s', D)"
| call_captureClient_Start:
    "captureClient_Start_ptr c ctx capture opts s = Inr (res, s') \<Longrightarrow> method_call (s, D) (s', D)"
| call_captureClient_Stop:
    "captureClient_Stop_ptr c ctx opts s = Inr (res, s') \<Longrightarrow> method_call (s, D) (s', D)"
| call_captureClient_Status:
    "captureClient_Status_ptr c ctx opts s = Inr (res, s') \<Longrightarrow> method_call (s, D) (s', D)"

inductive run ::
  "('r, 'w) state \<times> nat set \<Rightarrow> ('r, 'w) state \<times> nat set \<Rightarrow> bool" for c0 where
  run_refl: "run c0 c0"
| run_step: "run c0 c \<Longrightarrow> method_call c c' \<Longrightarrow> run c0 c'"

text \<open>The world after a sequence of invocations of legacy clients.\<close>

fun invoke_all :: "(('r, 'w) legacy_Client \<times> legacyCall) list \<Rightarrow> 'w \<Rightarrow> 'w" where
  "invoke_all [] w = w"
| "invoke_all (i # rest) w = invoke_all rest (snd (fst i (snd i) w))"


section \<open>Properties of the call options\<close>

subsection \<open>Slices and single options\<close>

lemma append_slice_Nil: "append_slice s [] = s"
  by (simp add: append_slice_def)

lemma append_slice_assoc: "append_slice (append_slice s xs) ys = append_slice s (xs @ ys)"
  by (simp add: append_slice_def)

lemma WithIgnoredCodes_not_nil: "WithIgnoredCodes codes \<noteq> None"
  by (simp add: WithIgnoredCodes_def)

lemma call_option_WithIgnoredCodes:
  "call_option (WithIgnoredCodes codes) cfg =
     Inr (cfg\<lparr>ignoredCodes := append_slice (ignoredCodes cfg) codes\<rparr>)"
  by (simp add: call_option_def WithIgnoredCodes_def)

lemma contributed_simps:
  "contributed None = []" "contributed (WithIgnoredCodes codes) = codes"
  by (simp_all add: contributed_def WithIgnoredCodes_def zero_callOptions_def append_slice_def)

subsection \<open>The loop\<close>

text \<open>The guard \<open>opt != nil\<close> keeps the loop from ever calling a \<open>nil\<close> function.\<close>

lemma apply_options_returns: "\<exists>cfg'. apply_options cfg opts = Inr cfg'"
proof (induction opts arbitrary: cfg)
  case Nil
  show ?case by simp
next
  case (Cons opt opts)
  show ?case
  proof (cases opt)
    case None
    with Cons show ?thesis by simp
  next
    case (Some f)
    with Cons [of "f cfg"] show ?thesis by (simp add: call_option_def)
  qed
qed

lemma buildCallOptions_returns: "\<exists>cfg. buildCallOptions opts = Inr cfg"
  unfolding buildCallOptions_def by (rule apply_options_returns)

lemma toLegacyIgnored_returns: "\<exists>ignored. toLegacyIgnored opts = Inr ignored"
proof -
  obtain cfg where "buildCallOptions opts = Inr cfg"
    using buildCallOptions_returns by blast
  then show ?thesis by (simp add: toLegacyIgnored_def)
qed

text \<open>Running the loop over \<open>xs @ ys\<close> is running it over \<open>xs\<close> and then over \<open>ys\<close>.\<close>

lemma apply_options_append:
  "apply_options cfg (xs @ ys) =
     (case apply_options cfg xs of Inl p \<Rightarrow> Inl p | Inr cfg' \<Rightarrow> apply_options cfg' ys)"
proof (induction xs arbitrary: cfg)
  case Nil
  show ?case by simp
next
  case (Cons opt xs)
  show ?case
  proof (cases opt)
    case None
    with Cons show ?thesis by simp
  next
    case (Some f)
    with Cons [of "f cfg"] show ?thesis by (simp add: call_option_def)
  qed
qed

text \<open>
  Over option values that are \<open>nil\<close> or made by \<open>WithIgnoredCodes\<close>, the loop appends
  the contributed codes to the configuration it started from.
\<close>

lemma apply_options_codes:
  assumes "set opts \<subseteq> insert None (range WithIgnoredCodes)"
  shows "apply_options cfg opts =
           Inr (cfg\<lparr>ignoredCodes :=
                  append_slice (ignoredCodes cfg) (concat (map contributed opts))\<rparr>)"
  using assms
proof (induction opts arbitrary: cfg)
  case Nil
  show ?case by (simp add: append_slice_Nil)
next
  case (Cons opt opts)
  from Cons.prems have rest: "set opts \<subseteq> insert None (range WithIgnoredCodes)"
    and hd: "opt = None \<or> opt \<in> range WithIgnoredCodes" by auto
  from hd show ?case
  proof
    assume "opt = None"
    with Cons.IH [OF rest, of cfg] show ?thesis by (simp add: contributed_simps)
  next
    assume "opt \<in> range WithIgnoredCodes"
    then obtain codes where opt: "opt = WithIgnoredCodes codes" by blast
    show ?thesis
      using Cons.IH [OF rest, of "cfg\<lparr>ignoredCodes := append_slice (ignoredCodes cfg) codes\<rparr>"]
      by (simp add: opt WithIgnoredCodes_not_nil call_option_WithIgnoredCodes
          contributed_simps append_slice_assoc)
  qed
qed

subsection \<open>Claims about the call options\<close>

text \<open>
  Claim C8. The call-option mechanism cannot fail: for every list of option values, \<open>nil\<close>
  entries and the empty list included, \<open>buildCallOptions\<close> and \<open>toLegacyIgnored\<close> return a
  value and never panic. Both are defined by recursion over the list, so they terminate.
\<close>

theorem call_options_total:
  "(\<exists>cfg. buildCallOptions opts = Inr cfg) \<and> (\<exists>ignored. toLegacyIgnored opts = Inr ignored)"
  using buildCallOptions_returns toLegacyIgnored_returns by blast

text \<open>
  Claim C2. For every list of option values, \<open>toLegacyIgnored\<close> returns \<open>nil\<close> (no variadic
  argument) when the accumulated codes are empty, and otherwise exactly one group, the
  accumulated codes in their order. It never returns a group that is empty (\<open>nil\<close> or of
  length zero), and never more than one group.
\<close>

theorem toLegacyIgnored_shape:
  "\<exists>cfg. buildCallOptions opts = Inr cfg \<and>
     toLegacyIgnored opts =
       Inr (if elems (ignoredCodes cfg) = [] then nil else Slice [ignoredCodes cfg]) \<and>
     toLegacyIgnored opts \<noteq> Inr (Slice [nil]) \<and>
     toLegacyIgnored opts \<noteq> Inr (Slice [Slice []]) \<and>
     (\<exists>ignored. toLegacyIgnored opts = Inr ignored \<and> len ignored \<le> 1)"
proof -
  obtain cfg where cfg: "buildCallOptions opts = Inr cfg"
    using buildCallOptions_returns by blast
  show ?thesis
    by (rule exI [of _ cfg]) (auto simp add: cfg toLegacyIgnored_def len_def)
qed

text \<open>
  Claim C3. For option values \<open>o1..on\<close> that are \<open>nil\<close> or made by \<open>WithIgnoredCodes\<close> (there
  are no others: the parameter type \<open>callOptions\<close> is not exported), \<open>buildCallOptions\<close>,
  which starts from the zero configuration, returns a configuration whose codes are the
  concatenation of the codes each \<open>oi\<close> contributes, in the order of application and with
  duplicates kept; the slice is \<open>nil\<close> when no \<open>oi\<close> contributed a code. A \<open>nil\<close> option
  contributes nothing and \<open>WithIgnoredCodes(codes...)\<close> contributes \<open>codes\<close>.
\<close>

theorem buildCallOptions_concat:
  assumes "set opts \<subseteq> insert None (range WithIgnoredCodes)"
  shows "contributed None = [] \<and>
         (\<forall>codes. contributed (WithIgnoredCodes codes) = codes) \<and>
         (\<exists>cfg. buildCallOptions opts = Inr cfg \<and>
            elems (ignoredCodes cfg) = concat (map contributed opts) \<and>
            ignoredCodes cfg =
              (if concat (map contributed opts) = [] then nil
               else Slice (concat (map contributed opts))))"
  using apply_options_codes [OF assms, of zero_callOptions]
  by (simp add: buildCallOptions_def zero_callOptions_def append_slice_def contributed_simps)

text \<open>
  The theorem at four option values, one of them \<open>nil\<close> and one applied twice: the code
  \<open>1001\<close> is accumulated twice.
\<close>

theorem buildCallOptions_concat_witness:
  "set [WithIgnoredCodes [1001], None, WithIgnoredCodes [1002, 1003], WithIgnoredCodes [1001]]
     \<subseteq> insert None (range WithIgnoredCodes) \<and>
   (\<exists>cfg. buildCallOptions
            [WithIgnoredCodes [1001], None, WithIgnoredCodes [1002, 1003], WithIgnoredCodes [1001]]
          = Inr cfg \<and>
          ignoredCodes cfg = Slice [1001, 1002, 1003, 1001])"
  using buildCallOptions_concat
    [of "[WithIgnoredCodes [1001], None, WithIgnoredCodes [1002, 1003], WithIgnoredCodes [1001]]"]
  by (auto simp add: contributed_simps)

text \<open>
  Claim C4. A \<open>nil\<close> option value is a no-op: a list with a \<open>nil\<close> at any position builds the
  same configuration as the list without it, and a list of \<open>nil\<close> values only builds the
  zero configuration.
\<close>

theorem nil_option_is_noop:
  "buildCallOptions (xs @ None # ys) = buildCallOptions (xs @ ys) \<and>
   buildCallOptions (replicate n None) = Inr zero_callOptions"
proof
  show "buildCallOptions (xs @ None # ys) = buildCallOptions (xs @ ys)"
    by (simp add: buildCallOptions_def apply_options_append split: sum.splits)
  show "buildCallOptions (replicate n None) = Inr zero_callOptions"
    by (induction n) (simp_all add: buildCallOptions_def)
qed

text \<open>
  Claim C10. \<open>WithIgnoredCodes()\<close> with no codes is a non-nil option value whose application
  leaves the configuration as it was: inserting it anywhere in a list of options does not
  change the configuration built, and \<open>toLegacyIgnored(WithIgnoredCodes())\<close> is \<open>nil\<close>.
\<close>

theorem WithIgnoredCodes_empty_is_noop:
  "WithIgnoredCodes [] \<noteq> None \<and>
   call_option (WithIgnoredCodes []) cfg = Inr cfg \<and>
   buildCallOptions (xs @ WithIgnoredCodes [] # ys) = buildCallOptions (xs @ ys) \<and>
   toLegacyIgnored [WithIgnoredCodes []] = Inr nil"
proof -
  have app: "call_option (WithIgnoredCodes []) c = Inr c" for c
    by (simp add: call_option_WithIgnoredCodes append_slice_Nil)
  have "apply_options c (WithIgnoredCodes [] # ys) = apply_options c ys" for c
    by (simp add: WithIgnoredCodes_not_nil app)
  then have "buildCallOptions (xs @ WithIgnoredCodes [] # ys) = buildCallOptions (xs @ ys)"
    by (simp add: buildCallOptions_def apply_options_append split: sum.splits)
  moreover have "toLegacyIgnored [WithIgnoredCodes []] = Inr nil"
    by (simp add: toLegacyIgnored_def buildCallOptions_def WithIgnoredCodes_not_nil app
        zero_callOptions_def len_def)
  ultimately show ?thesis using WithIgnoredCodes_not_nil app by simp
qed

section \<open>Properties of the operations\<close>

lemmas operation_defs =
  lbClient_Get_def lbClient_List_def lbClient_Create_def lbClient_Delete_def
  lbPrefixesClient_List_def lbPrefixesClient_Create_def lbPrefixesClient_Delete_def
  lbTargetsClient_List_def lbTargetsClient_Create_def lbTargetsClient_Delete_def
  ifaceClient_Get_def ifaceClient_List_def ifaceClient_Create_def ifaceClient_Delete_def
  vipClient_Get_def vipClient_Create_def vipClient_Delete_def ifacePrefixesClient_List_def
  ifacePrefixesClient_Create_def ifacePrefixesClient_Delete_def routeClient_List_def
  routeClient_Create_def routeClient_Delete_def natClient_Get_def natClient_Create_def
  natClient_Delete_def natClient_ListAny_def natClient_ListLocal_def
  natClient_ListNeighbors_def natClient_CreateNeighbor_def natClient_DeleteNeighbor_def
  fwClient_List_def fwClient_Get_def fwClient_Create_def fwClient_Delete_def
  systemClient_CheckInitialized_def systemClient_Initialize_def systemClient_GetVni_def
  systemClient_ResetVni_def systemClient_GetVersion_def captureClient_Start_def
  captureClient_Stop_def captureClient_Status_def

lemmas accessor_defs =
  rootAdapter_LoadBalancers_def rootAdapter_Interfaces_def rootAdapter_Routes_def
  rootAdapter_NATs_def rootAdapter_Firewall_def rootAdapter_System_def
  rootAdapter_Capture_def lbClient_Prefixes_def lbClient_Targets_def ifaceClient_VIP_def
  ifaceClient_Prefixes_def ifaceClient_Firewall_def

lemma with_ignored_returns:
  "toLegacyIgnored opts = Inr ignored \<Longrightarrow> with_ignored opts call = Inr (call ignored)"
  by (simp add: with_ignored_def)

lemma toLegacyIgnored_no_options: "toLegacyIgnored [] = Inr nil"
  by (simp add: toLegacyIgnored_def buildCallOptions_def zero_callOptions_def len_def)

text \<open>
  Claim C1. Every operation of every handle, invoked with a context, its parameters and
  call options, evaluates \<open>toLegacyIgnored\<close> on the options (which returns, say,
  \<open>ignored\<close>) and is then one invocation of the handle's legacy client: the corresponding
  method, with the same parameters in the same order and \<open>ignored\<close> last (\<open>ListAny\<close> invokes
  \<open>ListNats\<close>, whose NAT type it fixes to \<open>"any"\<close> after \<open>natIP\<close>). The operation
  returns what that invocation returns and leaves the world as that invocation leaves it.
  The last line reads one invocation off a recording client: it is one more entry in the
  log of calls.
\<close>

theorem facade_forwards_to_legacy:
  "\<exists>ignored. toLegacyIgnored opts = Inr ignored \<and>
     (\<forall>(c :: ('r, 'w) lbClient) ctx id' w.
        lbClient_Get c ctx id' opts w =
          Inr (lbClient.legacy c (GetLoadBalancer ctx id' ignored) w)) \<and>
     (\<forall>(c :: ('r, 'w) lbClient) ctx w.
        lbClient_List c ctx opts w =
          Inr (lbClient.legacy c (ListLoadBalancers ctx ignored) w)) \<and>
     (\<forall>(c :: ('r, 'w) lbClient) ctx lb w.
        lbClient_Create c ctx lb opts w =
          Inr (lbClient.legacy c (CreateLoadBalancer ctx lb ignored) w)) \<and>
     (\<forall>(c :: ('r, 'w) lbClient) ctx id' w.
        lbClient_Delete c ctx id' opts w =
          Inr (lbClient.legacy c (DeleteLoadBalancer ctx id' ignored) w)) \<and>
     (\<forall>(c :: ('r, 'w) lbPrefixesClient) ctx interfaceID w.
        lbPrefixesClient_List c ctx interfaceID opts w =
          Inr (lbPrefixesClient.legacy c (ListLoadBalancerPrefixes ctx interfaceID ignored) w)) \<and>
     (\<forall>(c :: ('r, 'w) lbPrefixesClient) ctx prefix w.
        lbPrefixesClient_Create c ctx prefix opts w =
          Inr (lbPrefixesClient.legacy c (CreateLoadBalancerPrefix ctx prefix ignored) w)) \<and>
     (\<forall>(c :: ('r, 'w) lbPrefixesClient) ctx interfaceID prefix w.
        lbPrefixesClient_Delete c ctx interfaceID prefix opts w =
          Inr (lbPrefixesClient.legacy c (DeleteLoadBalancerPrefix ctx interfaceID prefix ignored) w)) \<and>
     (\<forall>(c :: ('r, 'w) lbTargetsClient) ctx loadBalancerID w.
        lbTargetsClient_List c ctx loadBalancerID opts w =
          Inr (lbTargetsClient.legacy c (ListLoadBalancerTargets ctx loadBalancerID ignored) w)) \<and>
     (\<forall>(c :: ('r, 'w) lbTargetsClient) ctx target w.
        lbTargetsClient_Create c ctx target opts w =
          Inr (lbTargetsClient.legacy c (CreateLoadBalancerTarget ctx target ignored) w)) \<and>
     (\<forall>(c :: ('r, 'w) lbTargetsClient) ctx lbID targetIP w.
        lbTargetsClient_Delete c ctx lbID targetIP opts w =
          Inr (lbTargetsClient.legacy c (DeleteLoadBalancerTarget ctx lbID targetIP ignored) w)) \<and>
     (\<forall>(c :: ('r, 'w) ifaceClient) ctx id' w.
        ifaceClient_Get c ctx id' opts w =
          Inr (ifaceClient.legacy c (GetInterface ctx id' ignored) w)) \<and>
     (\<forall>(c :: ('r, 'w) ifaceClient) ctx w.
        ifaceClient_List c ctx opts w =
          Inr (ifaceClient.legacy c (ListInterfaces ctx ignored) w)) \<and>
     (\<forall>(c :: ('r, 'w) ifaceClient) ctx iface w.
        ifaceClient_Create c ctx iface opts w =
          Inr (ifaceClient.legacy c (CreateInterface ctx iface ignored) w)) \<and>
     (\<forall>(c :: ('r, 'w) ifaceClient) ctx id' w.
        ifaceClient_Delete c ctx id' opts w =
          Inr (ifaceClient.legacy c (DeleteInterface ctx id' ignored) w)) \<and>
     (\<forall>(c :: ('r, 'w) vipClient) ctx interfaceID w.
        vipClient_Get c ctx interfaceID opts w =
          Inr (vipClient.legacy c (GetVirtualIP ctx interfaceID ignored) w)) \<and>
     (\<forall>(c :: ('r, 'w) vipClient) ctx vip w.
        vipClient_Create c ctx vip opts w =
          Inr (vipClient.legacy c (CreateVirtualIP ctx vip ignored) w)) \<and>
     (\<forall>(c :: ('r, 'w) vipClient) ctx interfaceID w.
        vipClient_Delete c ctx interfaceID opts w =
          Inr (vipClient.legacy c (DeleteVirtualIP ctx interfaceID ignored) w)) \<and>
     (\<forall>(c :: ('r, 'w) ifacePrefixesClient) ctx interfaceID w.
        ifacePrefixesClient_List c ctx interfaceID opts w =
          Inr (ifacePrefixesClient.legacy c (ListPrefixes ctx interfaceID ignored) w)) \<and>
     (\<forall>(c :: ('r, 'w) ifacePrefixesClient) ctx prefix w.
        ifacePrefixesClient_Create c ctx prefix opts w =
          Inr (ifacePrefixesClient.legacy c (CreatePrefix ctx prefix ignored) w)) \<and>
     (\<forall>(c :: ('r, 'w) ifacePrefixesClient) ctx interfaceID prefix w.
        ifacePrefixesClient_Delete c ctx interfaceID prefix opts w =
          Inr (ifacePrefixesClient.legacy c (DeletePrefix ctx interfaceID prefix ignored) w)) \<and>
     (\<forall>(c :: ('r, 'w) routeClient) ctx vni w.
        routeClient_List c ctx vni opts w =
          Inr (routeClient.legacy c (ListRoutes ctx vni ignored) w)) \<and>
     (\<forall>(c :: ('r, 'w) routeClient) ctx route w.
        routeClient_Create c ctx route opts w =
          Inr (routeClient.legacy c (CreateRoute ctx route ignored) w)) \<and>
     (\<forall>(c :: ('r, 'w) routeClient) ctx vni prefix w.
        routeClient_Delete c ctx vni prefix opts w =
          Inr (routeClient.legacy c (DeleteRoute ctx vni prefix ignored) w)) \<and>
     (\<forall>(c :: ('r, 'w) natClient) ctx interfaceID w.
        natClient_Get c ctx interfaceID opts w =
          Inr (natClient.legacy c (GetNat ctx interfaceID ignored) w)) \<and>
     (\<forall>(c :: ('r, 'w) natClient) ctx nat' w.
        natClient_Create c ctx nat' opts w =
          Inr (natClient.legacy c (CreateNat ctx nat' ignored) w)) \<and>
     (\<forall>(c :: ('r, 'w) natClient) ctx interfaceID w.
        natClient_Delete c ctx interfaceID opts w =
          Inr (natClient.legacy c (DeleteNat ctx interfaceID ignored) w)) \<and>
     (\<forall>(c :: ('r, 'w) natClient) ctx natIP w.
        natClient_ListAny c ctx natIP opts w =
          Inr (natClient.legacy c (ListNats ctx natIP ''any'' ignored) w)) \<and>
     (\<forall>(c :: ('r, 'w) natClient) ctx natIP w.
        natClient_ListLocal c ctx natIP opts w =
          Inr (natClient.legacy c (ListLocalNats ctx natIP ignored) w)) \<and>
     (\<forall>(c :: ('r, 'w) natClient) ctx natIP w.
        natClient_ListNeighbors c ctx natIP opts w =
          Inr (natClient.legacy c (ListNeighborNats ctx natIP ignored) w)) \<and>
     (\<forall>(c :: ('r, 'w) natClient) ctx n w.
        natClient_CreateNeighbor c ctx n opts w =
          Inr (natClient.legacy c (CreateNeighborNat ctx n ignored) w)) \<and>
     (\<forall>(c :: ('r, 'w) natClient) ctx n w.
        natClient_DeleteNeighbor c ctx n opts w =
          Inr (natClient.legacy c (DeleteNeighborNat ctx n ignored) w)) \<and>
     (\<forall>(c :: ('r, 'w) fwClient) ctx interfaceID w.
        fwClient_List c ctx interfaceID opts w =
          Inr (fwClient.legacy c (ListFirewallRules ctx interfaceID ignored) w)) \<and>
     (\<forall>(c :: ('r, 'w) fwClient) ctx interfaceID ruleID w.
        fwClient_Get c ctx interfaceID ruleID opts w =
          Inr (fwClient.legacy c (GetFirewallRule ctx interfaceID ruleID ignored) w)) \<and>
     (\<forall>(c :: ('r, 'w) fwClient) ctx rule w.
        fwClient_Create c ctx rule opts w =
          Inr (fwClient.legacy c (CreateFirewallRule ctx rule ignored) w)) \<and>
     (\<forall>(c :: ('r, 'w) fwClient) ctx interfaceID ruleID w.
        fwClient_Delete c ctx interfaceID ruleID opts w =
          Inr (fwClient.legacy c (DeleteFirewallRule ctx interfaceID ruleID ignored) w)) \<and>
     (\<forall>(c :: ('r, 'w) systemClient) ctx w.
        systemClient_CheckInitialized c ctx opts w =
          Inr (systemClient.legacy c (CheckInitialized ctx ignored) w)) \<and>
     (\<forall>(c :: ('r, 'w) systemClient) ctx w.
        systemClient_Initialize c ctx opts w =
          Inr (systemClient.legacy c (Initialize ctx ignored) w)) \<and>
     (\<forall>(c :: ('r, 'w) systemClient) ctx vni vniType w.
        systemClient_GetVni c ctx vni vniType opts w =
          Inr (systemClient.legacy c (GetVni ctx vni vniType ignored) w)) \<and>
     (\<forall>(c :: ('r, 'w) systemClient) ctx vni vniType w.
        systemClient_ResetVni c ctx vni vniType opts w =
          Inr (systemClient.legacy c (ResetVni ctx vni vniType ignored) w)) \<and>
     (\<forall>(c :: ('r, 'w) systemClient) ctx version w.
        systemClient_GetVersion c ctx version opts w =
          Inr (systemClient.legacy c (GetVersion ctx version ignored) w)) \<and>
     (\<forall>(c :: ('r, 'w) captureClient) ctx capture w.
        captureClient_Start c ctx capture opts w =
          Inr (captureClient.legacy c (CaptureStart ctx capture ignored) w)) \<and>
     (\<forall>(c :: ('r, 'w) captureClient) ctx w.
        captureClient_Stop c ctx opts w =
          Inr (captureClient.legacy c (CaptureStop ctx ignored) w)) \<and>
     (\<forall>(c :: ('r, 'w) captureClient) ctx w.
        captureClient_Status c ctx opts w =
          Inr (captureClient.legacy c (CaptureStatus ctx ignored) w)) \<and>
     (\<forall>(reply :: legacyCall \<Rightarrow> 'r) call log.
        recorder reply call log = (reply call, log @ [call]))"
proof -
  obtain ignored where ign: "toLegacyIgnored opts = Inr ignored"
    using toLegacyIgnored_returns by blast
  show ?thesis
    by (rule exI [of _ ignored])
      (simp add: ign with_ignored_returns [OF ign] operation_defs recorder_def)
qed

text \<open>
  The theorem at the NAT handle of a recording client, with the options
  \<open>WithIgnoredCodes(1001), WithIgnoredCodes(1002, 1003)\<close>: the log holds the one call
  \<open>GetNat\<close> with the group \<open>[1001, 1002, 1003]\<close>.
\<close>

theorem facade_forwards_to_legacy_witness:
  "natClient_Get (rootAdapter_NATs (AsV2 (recorder (\<lambda>call. ())))) (Ctx 0) ''iface-1''
     [WithIgnoredCodes [1001], WithIgnoredCodes [1002, 1003]] [] =
   Inr ((), [GetNat (Ctx 0) ''iface-1'' (Slice [Slice [1001, 1002, 1003]])])"
proof -
  have "toLegacyIgnored [WithIgnoredCodes [1001], WithIgnoredCodes [1002, 1003]] =
          Inr (Slice [Slice [1001, 1002, 1003]])"
    by (simp add: toLegacyIgnored_def buildCallOptions_def zero_callOptions_def len_def
        WithIgnoredCodes_not_nil call_option_WithIgnoredCodes append_slice_def)
  with facade_forwards_to_legacy
         [where ?'r = unit and ?'w = "legacyCall list"
            and opts = "[WithIgnoredCodes [1001], WithIgnoredCodes [1002, 1003]]"]
  show ?thesis
    by (auto simp add: rootAdapter_NATs_def AsV2_def)
qed

text \<open>
  Claim C5. \<open>AsV2(c)\<close> holds the legacy client \<open>c\<close> itself: it builds no legacy client,
  where \<open>NewFromProto\<close> holds the one \<open>legacy.NewClient\<close> builds. \<open>Routes().List(ctx, 42)\<close>
  on the result is the invocation of \<open>c\<close>'s \<open>ListRoutes\<close> with VNI 42 and no group of ignored
  codes; on a recording client, the log grows by that one call.
\<close>

theorem AsV2_Routes_List:
  "rootAdapter.legacy (AsV2 c) = c \<and>
   NewFromProto legacy_NewClient rpc = AsV2 (legacy_NewClient rpc) \<and>
   routeClient_List (rootAdapter_Routes (AsV2 c)) ctx 42 [] w =
     Inr (c (ListRoutes ctx 42 nil) w) \<and>
   routeClient_List (rootAdapter_Routes (AsV2 (recorder reply))) ctx 42 [] log =
     Inr (reply (ListRoutes ctx 42 nil), log @ [ListRoutes ctx 42 nil])"
  by (simp add: AsV2_def NewFromProto_def rootAdapter_Routes_def routeClient_List_def
      with_ignored_returns [OF toLegacyIgnored_no_options] recorder_def)

text \<open>
  Claim C9. The firewall handle reached by \<open>Firewall()\<close> on the root and the one reached by
  \<open>Interfaces().Firewall()\<close> on the same root are equal, and each of \<open>List\<close>, \<open>Get\<close>,
  \<open>Create\<close> and \<open>Delete\<close> is, on either, the same invocation of the root's legacy client,
  with the same result and the same state of the world after it.
\<close>

theorem firewall_paths_agree:
  "rootAdapter_Firewall r = ifaceClient_Firewall (rootAdapter_Interfaces r) \<and>
   (\<exists>ignored. toLegacyIgnored opts = Inr ignored \<and>
      fwClient_List (rootAdapter_Firewall r) ctx interfaceID opts w =
        Inr (rootAdapter.legacy r (ListFirewallRules ctx interfaceID ignored) w) \<and>
      fwClient_List (ifaceClient_Firewall (rootAdapter_Interfaces r)) ctx interfaceID opts w =
        Inr (rootAdapter.legacy r (ListFirewallRules ctx interfaceID ignored) w) \<and>
      fwClient_Get (rootAdapter_Firewall r) ctx interfaceID ruleID opts w =
        Inr (rootAdapter.legacy r (GetFirewallRule ctx interfaceID ruleID ignored) w) \<and>
      fwClient_Get (ifaceClient_Firewall (rootAdapter_Interfaces r)) ctx interfaceID ruleID opts w =
        Inr (rootAdapter.legacy r (GetFirewallRule ctx interfaceID ruleID ignored) w) \<and>
      fwClient_Create (rootAdapter_Firewall r) ctx rule opts w =
        Inr (rootAdapter.legacy r (CreateFirewallRule ctx rule ignored) w) \<and>
      fwClient_Create (ifaceClient_Firewall (rootAdapter_Interfaces r)) ctx rule opts w =
        Inr (rootAdapter.legacy r (CreateFirewallRule ctx rule ignored) w) \<and>
      fwClient_Delete (rootAdapter_Firewall r) ctx interfaceID ruleID opts w =
        Inr (rootAdapter.legacy r (DeleteFirewallRule ctx interfaceID ruleID ignored) w) \<and>
      fwClient_Delete (ifaceClient_Firewall (rootAdapter_Interfaces r)) ctx interfaceID ruleID opts w =
        Inr (rootAdapter.legacy r (DeleteFirewallRule ctx interfaceID ruleID ignored) w))"
proof -
  obtain ignored where ign: "toLegacyIgnored opts = Inr ignored"
    using toLegacyIgnored_returns by blast
  have "rootAdapter_Firewall r = ifaceClient_Firewall (rootAdapter_Interfaces r)"
    by (simp add: accessor_defs)
  moreover have "fwClient.legacy (rootAdapter_Firewall r) = rootAdapter.legacy r"
    by (simp add: accessor_defs)
  ultimately show ?thesis
    using ign
    by (simp add: with_ignored_returns [OF ign] fwClient_List_def fwClient_Get_def
        fwClient_Create_def fwClient_Delete_def)
qed

section \<open>Properties of the handles in memory\<close>



lemmas as_struct_defs =
  as_rootAdapter_def as_lbClient_def as_lbPrefixesClient_def as_lbTargetsClient_def
  as_ifaceClient_def as_vipClient_def as_ifacePrefixesClient_def as_routeClient_def
  as_natClient_def as_fwClient_def as_systemClient_def as_captureClient_def

lemma as_handle_simps:
  "as_rootAdapter (H_rootAdapter x0) = Some x0"
  "as_lbClient (H_lbClient x1) = Some x1"
  "as_lbPrefixesClient (H_lbPrefixesClient x2) = Some x2"
  "as_lbTargetsClient (H_lbTargetsClient x3) = Some x3"
  "as_ifaceClient (H_ifaceClient x4) = Some x4"
  "as_vipClient (H_vipClient x5) = Some x5"
  "as_ifacePrefixesClient (H_ifacePrefixesClient x6) = Some x6"
  "as_routeClient (H_routeClient x7) = Some x7"
  "as_natClient (H_natClient x8) = Some x8"
  "as_fwClient (H_fwClient x9) = Some x9"
  "as_systemClient (H_systemClient x10) = Some x10"
  "as_captureClient (H_captureClient x11) = Some x11"
  by (simp_all add: as_struct_defs)

lemma as_struct_legacy:
  "as_rootAdapter h = Some x0 \<Longrightarrow> handle_legacy h = rootAdapter.legacy x0"
  "as_lbClient h = Some x1 \<Longrightarrow> handle_legacy h = lbClient.legacy x1"
  "as_lbPrefixesClient h = Some x2 \<Longrightarrow> handle_legacy h = lbPrefixesClient.legacy x2"
  "as_lbTargetsClient h = Some x3 \<Longrightarrow> handle_legacy h = lbTargetsClient.legacy x3"
  "as_ifaceClient h = Some x4 \<Longrightarrow> handle_legacy h = ifaceClient.legacy x4"
  "as_vipClient h = Some x5 \<Longrightarrow> handle_legacy h = vipClient.legacy x5"
  "as_ifacePrefixesClient h = Some x6 \<Longrightarrow> handle_legacy h = ifacePrefixesClient.legacy x6"
  "as_routeClient h = Some x7 \<Longrightarrow> handle_legacy h = routeClient.legacy x7"
  "as_natClient h = Some x8 \<Longrightarrow> handle_legacy h = natClient.legacy x8"
  "as_fwClient h = Some x9 \<Longrightarrow> handle_legacy h = fwClient.legacy x9"
  "as_systemClient h = Some x10 \<Longrightarrow> handle_legacy h = systemClient.legacy x10"
  "as_captureClient h = Some x11 \<Longrightarrow> handle_legacy h = captureClient.legacy x11"
  by (auto simp add: as_struct_defs split: handle.splits)

subsection \<open>Pointers and allocation\<close>

lemma deref_Inr_iff:
  "deref proj p s = Inr v \<longleftrightarrow> (\<exists>a. p = Ptr a \<and> a < length (heap s) \<and> proj (heap s ! a) = Some v)"
  by (auto simp add: deref_def split: ptr.splits option.splits)




subsection \<open>Accessors\<close>








subsection \<open>What one call does\<close>

lemma accessor_method_effect:
  assumes m: "accessor_method proj mk f (Ptr a) s = Inr (Ptr q, s')"
    and l: "\<And>h v. proj h = Some v \<Longrightarrow> handle_legacy (mk (f v)) = handle_legacy h"
  shows "a < length (heap s) \<and> q = length (heap s) \<and> world s' = world s \<and>
         (\<exists>h. heap s' = heap s @ [h] \<and> handle_legacy h = handle_legacy (heap s ! a))"
proof -
  from m obtain v where v: "deref proj (Ptr a) s = Inr v"
    and new: "new_struct mk (f v) s = (Ptr q, s')"
    by (auto simp add: accessor_method_def split: sum.splits)
  from v have a: "a < length (heap s)" "proj (heap s ! a) = Some v"
    by (auto simp add: deref_Inr_iff)
  from new have "q = length (heap s)" "s' = s\<lparr>heap := heap s @ [mk (f v)]\<rparr>"
    by (auto simp add: new_struct_def)
  with a l [OF a(2)] show ?thesis by simp
qed

lemma operation_method_effect:
  assumes m: "operation_method proj body c s = Inr (res, s')"
    and b: "\<And>v w. body v w = with_ignored opts (\<lambda>ignored. leg v (k ignored) w)"
    and l: "\<And>h v. proj h = Some v \<Longrightarrow> handle_legacy h = leg v"
  shows "heap s' = heap s \<and>
         (\<exists>h\<in>set (heap s). \<exists>call. (res, world s') = handle_legacy h call (world s))"
proof -
  from m obtain v where v: "deref proj c s = Inr v"
    and run: "in_world (body v) s = Inr (res, s')"
    by (auto simp add: operation_method_def split: sum.splits)
  from v obtain a where a: "a < length (heap s)" "proj (heap s ! a) = Some v"
    by (auto simp add: deref_Inr_iff)
  obtain ignored where ign: "toLegacyIgnored opts = Inr ignored"
    using toLegacyIgnored_returns by blast
  have "body v (world s) = Inr (leg v (k ignored) (world s))"
    by (simp add: b with_ignored_returns [OF ign])
  with run have h: "heap s' = heap s" and r: "(res, world s') = leg v (k ignored) (world s)"
    by (auto simp add: in_world_def split: prod.splits)
  have "heap s ! a \<in> set (heap s)"
    using a(1) by simp
  moreover have "(res, world s') = handle_legacy (heap s ! a) (k ignored) (world s)"
    using r l [OF a(2)] by simp
  ultimately show ?thesis using h by blast
qed

lemma rootAdapter_LoadBalancers_ptr_effect:
  "rootAdapter_LoadBalancers_ptr (Ptr a) s = Inr (Ptr q, s') \<Longrightarrow>
   a < length (heap s) \<and> q = length (heap s) \<and> world s' = world s \<and>
   (\<exists>h. heap s' = heap s @ [h] \<and> handle_legacy h = handle_legacy (heap s ! a))"
  unfolding rootAdapter_LoadBalancers_ptr_def
  by (erule accessor_method_effect)
    (auto simp add: as_rootAdapter_def rootAdapter_LoadBalancers_def split: handle.splits)

lemma rootAdapter_Interfaces_ptr_effect:
  "rootAdapter_Interfaces_ptr (Ptr a) s = Inr (Ptr q, s') \<Longrightarrow>
   a < length (heap s) \<and> q = length (heap s) \<and> world s' = world s \<and>
   (\<exists>h. heap s' = heap s @ [h] \<and> handle_legacy h = handle_legacy (heap s ! a))"
  unfolding rootAdapter_Interfaces_ptr_def
  by (erule accessor_method_effect)
    (auto simp add: as_rootAdapter_def rootAdapter_Interfaces_def split: handle.splits)

lemma rootAdapter_Routes_ptr_effect:
  "rootAdapter_Routes_ptr (Ptr a) s = Inr (Ptr q, s') \<Longrightarrow>
   a < length (heap s) \<and> q = length (heap s) \<and> world s' = world s \<and>
   (\<exists>h. heap s' = heap s @ [h] \<and> handle_legacy h = handle_legacy (heap s ! a))"
  unfolding rootAdapter_Routes_ptr_def
  by (erule accessor_method_effect)
    (auto simp add: as_rootAdapter_def rootAdapter_Routes_def split: handle.splits)

lemma rootAdapter_NATs_ptr_effect:
  "rootAdapter_NATs_ptr (Ptr a) s = Inr (Ptr q, s') \<Longrightarrow>
   a < length (heap s) \<and> q = length (heap s) \<and> world s' = world s \<and>
   (\<exists>h. heap s' = heap s @ [h] \<and> handle_legacy h = handle_legacy (heap s ! a))"
  unfolding rootAdapter_NATs_ptr_def
  by (erule accessor_method_effect)
    (auto simp add: as_rootAdapter_def rootAdapter_NATs_def split: handle.splits)

lemma rootAdapter_Firewall_ptr_effect:
  "rootAdapter_Firewall_ptr (Ptr a) s = Inr (Ptr q, s') \<Longrightarrow>
   a < length (heap s) \<and> q = length (heap s) \<and> world s' = world s \<and>
   (\<exists>h. heap s' = heap s @ [h] \<and> handle_legacy h = handle_legacy (heap s ! a))"
  unfolding rootAdapter_Firewall_ptr_def
  by (erule accessor_method_effect)
    (auto simp add: as_rootAdapter_def rootAdapter_Firewall_def split: handle.splits)

lemma rootAdapter_System_ptr_effect:
  "rootAdapter_System_ptr (Ptr a) s = Inr (Ptr q, s') \<Longrightarrow>
   a < length (heap s) \<and> q = length (heap s) \<and> world s' = world s \<and>
   (\<exists>h. heap s' = heap s @ [h] \<and> handle_legacy h = handle_legacy (heap s ! a))"
  unfolding rootAdapter_System_ptr_def
  by (erule accessor_method_effect)
    (auto simp add: as_rootAdapter_def rootAdapter_System_def split: handle.splits)

lemma rootAdapter_Capture_ptr_effect:
  "rootAdapter_Capture_ptr (Ptr a) s = Inr (Ptr q, s') \<Longrightarrow>
   a < length (heap s) \<and> q = length (heap s) \<and> world s' = world s \<and>
   (\<exists>h. heap s' = heap s @ [h] \<and> handle_legacy h = handle_legacy (heap s ! a))"
  unfolding rootAdapter_Capture_ptr_def
  by (erule accessor_method_effect)
    (auto simp add: as_rootAdapter_def rootAdapter_Capture_def split: handle.splits)

lemma lbClient_Prefixes_ptr_effect:
  "lbClient_Prefixes_ptr (Ptr a) s = Inr (Ptr q, s') \<Longrightarrow>
   a < length (heap s) \<and> q = length (heap s) \<and> world s' = world s \<and>
   (\<exists>h. heap s' = heap s @ [h] \<and> handle_legacy h = handle_legacy (heap s ! a))"
  unfolding lbClient_Prefixes_ptr_def
  by (erule accessor_method_effect)
    (auto simp add: as_lbClient_def lbClient_Prefixes_def split: handle.splits)

lemma lbClient_Targets_ptr_effect:
  "lbClient_Targets_ptr (Ptr a) s = Inr (Ptr q, s') \<Longrightarrow>
   a < length (heap s) \<and> q = length (heap s) \<and> world s' = world s \<and>
   (\<exists>h. heap s' = heap s @ [h] \<and> handle_legacy h = handle_legacy (heap s ! a))"
  unfolding lbClient_Targets_ptr_def
  by (erule accessor_method_effect)
    (auto simp add: as_lbClient_def lbClient_Targets_def split: handle.splits)

lemma ifaceClient_VIP_ptr_effect:
  "ifaceClient_VIP_ptr (Ptr a) s = Inr (Ptr q, s') \<Longrightarrow>
   a < length (heap s) \<and> q = length (heap s) \<and> world s' = world s \<and>
   (\<exists>h. heap s' = heap s @ [h] \<and> handle_legacy h = handle_legacy (heap s ! a))"
  unfolding ifaceClient_VIP_ptr_def
  by (erule accessor_method_effect)
    (auto simp add: as_ifaceClient_def ifaceClient_VIP_def split: handle.splits)

lemma ifaceClient_Prefixes_ptr_effect:
  "ifaceClient_Prefixes_ptr (Ptr a) s = Inr (Ptr q, s') \<Longrightarrow>
   a < length (heap s) \<and> q = length (heap s) \<and> world s' = world s \<and>
   (\<exists>h. heap s' = heap s @ [h] \<and> handle_legacy h = handle_legacy (heap s ! a))"
  unfolding ifaceClient_Prefixes_ptr_def
  by (erule accessor_method_effect)
    (auto simp add: as_ifaceClient_def ifaceClient_Prefixes_def split: handle.splits)

lemma ifaceClient_Firewall_ptr_effect:
  "ifaceClient_Firewall_ptr (Ptr a) s = Inr (Ptr q, s') \<Longrightarrow>
   a < length (heap s) \<and> q = length (heap s) \<and> world s' = world s \<and>
   (\<exists>h. heap s' = heap s @ [h] \<and> handle_legacy h = handle_legacy (heap s ! a))"
  unfolding ifaceClient_Firewall_ptr_def
  by (erule accessor_method_effect)
    (auto simp add: as_ifaceClient_def ifaceClient_Firewall_def split: handle.splits)

lemma lbClient_Get_ptr_effect:
  "lbClient_Get_ptr c ctx id' opts s = Inr (res, s') \<Longrightarrow>
   heap s' = heap s \<and>
   (\<exists>h\<in>set (heap s). \<exists>call. (res, world s') = handle_legacy h call (world s))"
  unfolding lbClient_Get_ptr_def
  by (erule operation_method_effect
        [where leg = lbClient.legacy and opts = opts and k = "\<lambda>ignored. GetLoadBalancer ctx id' ignored"])
    (simp_all add: lbClient_Get_def as_struct_legacy)

lemma lbClient_List_ptr_effect:
  "lbClient_List_ptr c ctx opts s = Inr (res, s') \<Longrightarrow>
   heap s' = heap s \<and>
   (\<exists>h\<in>set (heap s). \<exists>call. (res, world s') = handle_legacy h call (world s))"
  unfolding lbClient_List_ptr_def
  by (erule operation_method_effect
        [where leg = lbClient.legacy and opts = opts and k = "\<lambda>ignored. ListLoadBalancers ctx ignored"])
    (simp_all add: lbClient_List_def as_struct_legacy)

lemma lbClient_Create_ptr_effect:
  "lbClient_Create_ptr c ctx lb opts s = Inr (res, s') \<Longrightarrow>
   heap s' = heap s \<and>
   (\<exists>h\<in>set (heap s). \<exists>call. (res, world s') = handle_legacy h call (world s))"
  unfolding lbClient_Create_ptr_def
  by (erule operation_method_effect
        [where leg = lbClient.legacy and opts = opts and k = "\<lambda>ignored. CreateLoadBalancer ctx lb ignored"])
    (simp_all add: lbClient_Create_def as_struct_legacy)

lemma lbClient_Delete_ptr_effect:
  "lbClient_Delete_ptr c ctx id' opts s = Inr (res, s') \<Longrightarrow>
   heap s' = heap s \<and>
   (\<exists>h\<in>set (heap s). \<exists>call. (res, world s') = handle_legacy h call (world s))"
  unfolding lbClient_Delete_ptr_def
  by (erule operation_method_effect
        [where leg = lbClient.legacy and opts = opts and k = "\<lambda>ignored. DeleteLoadBalancer ctx id' ignored"])
    (simp_all add: lbClient_Delete_def as_struct_legacy)

lemma lbPrefixesClient_List_ptr_effect:
  "lbPrefixesClient_List_ptr c ctx interfaceID opts s = Inr (res, s') \<Longrightarrow>
   heap s' = heap s \<and>
   (\<exists>h\<in>set (heap s). \<exists>call. (res, world s') = handle_legacy h call (world s))"
  unfolding lbPrefixesClient_List_ptr_def
  by (erule operation_method_effect
        [where leg = lbPrefixesClient.legacy and opts = opts and k = "\<lambda>ignored. ListLoadBalancerPrefixes ctx interfaceID ignored"])
    (simp_all add: lbPrefixesClient_List_def as_struct_legacy)

lemma lbPrefixesClient_Create_ptr_effect:
  "lbPrefixesClient_Create_ptr c ctx prefix opts s = Inr (res, s') \<Longrightarrow>
   heap s' = heap s \<and>
   (\<exists>h\<in>set (heap s). \<exists>call. (res, world s') = handle_legacy h call (world s))"
  unfolding lbPrefixesClient_Create_ptr_def
  by (erule operation_method_effect
        [where leg = lbPrefixesClient.legacy and opts = opts and k = "\<lambda>ignored. CreateLoadBalancerPrefix ctx prefix ignored"])
    (simp_all add: lbPrefixesClient_Create_def as_struct_legacy)

lemma lbPrefixesClient_Delete_ptr_effect:
  "lbPrefixesClient_Delete_ptr c ctx interfaceID prefix opts s = Inr (res, s') \<Longrightarrow>
   heap s' = heap s \<and>
   (\<exists>h\<in>set (heap s). \<exists>call. (res, world s') = handle_legacy h call (world s))"
  unfolding lbPrefixesClient_Delete_ptr_def
  by (erule operation_method_effect
        [where leg = lbPrefixesClient.legacy and opts = opts and k = "\<lambda>ignored. DeleteLoadBalancerPrefix ctx interfaceID prefix ignored"])
    (simp_all add: lbPrefixesClient_Delete_def as_struct_legacy)

lemma lbTargetsClient_List_ptr_effect:
  "lbTargetsClient_List_ptr c ctx loadBalancerID opts s = Inr (res, s') \<Longrightarrow>
   heap s' = heap s \<and>
   (\<exists>h\<in>set (heap s). \<exists>call. (res, world s') = handle_legacy h call (world s))"
  unfolding lbTargetsClient_List_ptr_def
  by (erule operation_method_effect
        [where leg = lbTargetsClient.legacy and opts = opts and k = "\<lambda>ignored. ListLoadBalancerTargets ctx loadBalancerID ignored"])
    (simp_all add: lbTargetsClient_List_def as_struct_legacy)

lemma lbTargetsClient_Create_ptr_effect:
  "lbTargetsClient_Create_ptr c ctx target opts s = Inr (res, s') \<Longrightarrow>
   heap s' = heap s \<and>
   (\<exists>h\<in>set (heap s). \<exists>call. (res, world s') = handle_legacy h call (world s))"
  unfolding lbTargetsClient_Create_ptr_def
  by (erule operation_method_effect
        [where leg = lbTargetsClient.legacy and opts = opts and k = "\<lambda>ignored. CreateLoadBalancerTarget ctx target ignored"])
    (simp_all add: lbTargetsClient_Create_def as_struct_legacy)

lemma lbTargetsClient_Delete_ptr_effect:
  "lbTargetsClient_Delete_ptr c ctx lbID targetIP opts s = Inr (res, s') \<Longrightarrow>
   heap s' = heap s \<and>
   (\<exists>h\<in>set (heap s). \<exists>call. (res, world s') = handle_legacy h call (world s))"
  unfolding lbTargetsClient_Delete_ptr_def
  by (erule operation_method_effect
        [where leg = lbTargetsClient.legacy and opts = opts and k = "\<lambda>ignored. DeleteLoadBalancerTarget ctx lbID targetIP ignored"])
    (simp_all add: lbTargetsClient_Delete_def as_struct_legacy)

lemma ifaceClient_Get_ptr_effect:
  "ifaceClient_Get_ptr c ctx id' opts s = Inr (res, s') \<Longrightarrow>
   heap s' = heap s \<and>
   (\<exists>h\<in>set (heap s). \<exists>call. (res, world s') = handle_legacy h call (world s))"
  unfolding ifaceClient_Get_ptr_def
  by (erule operation_method_effect
        [where leg = ifaceClient.legacy and opts = opts and k = "\<lambda>ignored. GetInterface ctx id' ignored"])
    (simp_all add: ifaceClient_Get_def as_struct_legacy)

lemma ifaceClient_List_ptr_effect:
  "ifaceClient_List_ptr c ctx opts s = Inr (res, s') \<Longrightarrow>
   heap s' = heap s \<and>
   (\<exists>h\<in>set (heap s). \<exists>call. (res, world s') = handle_legacy h call (world s))"
  unfolding ifaceClient_List_ptr_def
  by (erule operation_method_effect
        [where leg = ifaceClient.legacy and opts = opts and k = "\<lambda>ignored. ListInterfaces ctx ignored"])
    (simp_all add: ifaceClient_List_def as_struct_legacy)

lemma ifaceClient_Create_ptr_effect:
  "ifaceClient_Create_ptr c ctx iface opts s = Inr (res, s') \<Longrightarrow>
   heap s' = heap s \<and>
   (\<exists>h\<in>set (heap s). \<exists>call. (res, world s') = handle_legacy h call (world s))"
  unfolding ifaceClient_Create_ptr_def
  by (erule operation_method_effect
        [where leg = ifaceClient.legacy and opts = opts and k = "\<lambda>ignored. CreateInterface ctx iface ignored"])
    (simp_all add: ifaceClient_Create_def as_struct_legacy)

lemma ifaceClient_Delete_ptr_effect:
  "ifaceClient_Delete_ptr c ctx id' opts s = Inr (res, s') \<Longrightarrow>
   heap s' = heap s \<and>
   (\<exists>h\<in>set (heap s). \<exists>call. (res, world s') = handle_legacy h call (world s))"
  unfolding ifaceClient_Delete_ptr_def
  by (erule operation_method_effect
        [where leg = ifaceClient.legacy and opts = opts and k = "\<lambda>ignored. DeleteInterface ctx id' ignored"])
    (simp_all add: ifaceClient_Delete_def as_struct_legacy)

lemma vipClient_Get_ptr_effect:
  "vipClient_Get_ptr c ctx interfaceID opts s = Inr (res, s') \<Longrightarrow>
   heap s' = heap s \<and>
   (\<exists>h\<in>set (heap s). \<exists>call. (res, world s') = handle_legacy h call (world s))"
  unfolding vipClient_Get_ptr_def
  by (erule operation_method_effect
        [where leg = vipClient.legacy and opts = opts and k = "\<lambda>ignored. GetVirtualIP ctx interfaceID ignored"])
    (simp_all add: vipClient_Get_def as_struct_legacy)

lemma vipClient_Create_ptr_effect:
  "vipClient_Create_ptr c ctx vip opts s = Inr (res, s') \<Longrightarrow>
   heap s' = heap s \<and>
   (\<exists>h\<in>set (heap s). \<exists>call. (res, world s') = handle_legacy h call (world s))"
  unfolding vipClient_Create_ptr_def
  by (erule operation_method_effect
        [where leg = vipClient.legacy and opts = opts and k = "\<lambda>ignored. CreateVirtualIP ctx vip ignored"])
    (simp_all add: vipClient_Create_def as_struct_legacy)

lemma vipClient_Delete_ptr_effect:
  "vipClient_Delete_ptr c ctx interfaceID opts s = Inr (res, s') \<Longrightarrow>
   heap s' = heap s \<and>
   (\<exists>h\<in>set (heap s). \<exists>call. (res, world s') = handle_legacy h call (world s))"
  unfolding vipClient_Delete_ptr_def
  by (erule operation_method_effect
        [where leg = vipClient.legacy and opts = opts and k = "\<lambda>ignored. DeleteVirtualIP ctx interfaceID ignored"])
    (simp_all add: vipClient_Delete_def as_struct_legacy)

lemma ifacePrefixesClient_List_ptr_effect:
  "ifacePrefixesClient_List_ptr c ctx interfaceID opts s = Inr (res, s') \<Longrightarrow>
   heap s' = heap s \<and>
   (\<exists>h\<in>set (heap s). \<exists>call. (res, world s') = handle_legacy h call (world s))"
  unfolding ifacePrefixesClient_List_ptr_def
  by (erule operation_method_effect
        [where leg = ifacePrefixesClient.legacy and opts = opts and k = "\<lambda>ignored. ListPrefixes ctx interfaceID ignored"])
    (simp_all add: ifacePrefixesClient_List_def as_struct_legacy)

lemma ifacePrefixesClient_Create_ptr_effect:
  "ifacePrefixesClient_Create_ptr c ctx prefix opts s = Inr (res, s') \<Longrightarrow>
   heap s' = heap s \<and>
   (\<exists>h\<in>set (heap s). \<exists>call. (res, world s') = handle_legacy h call (world s))"
  unfolding ifacePrefixesClient_Create_ptr_def
  by (erule operation_method_effect
        [where leg = ifacePrefixesClient.legacy and opts = opts and k = "\<lambda>ignored. CreatePrefix ctx prefix ignored"])
    (simp_all add: ifacePrefixesClient_Create_def as_struct_legacy)

lemma ifacePrefixesClient_Delete_ptr_effect:
  "ifacePrefixesClient_Delete_ptr c ctx interfaceID prefix opts s = Inr (res, s') \<Longrightarrow>
   heap s' = heap s \<and>
   (\<exists>h\<in>set (heap s). \<exists>call. (res, world s') = handle_legacy h call (world s))"
  unfolding ifacePrefixesClient_Delete_ptr_def
  by (erule operation_method_effect
        [where leg = ifacePrefixesClient.legacy and opts = opts and k = "\<lambda>ignored. DeletePrefix ctx interfaceID prefix ignored"])
    (simp_all add: ifacePrefixesClient_Delete_def as_struct_legacy)

lemma routeClient_List_ptr_effect:
  "routeClient_List_ptr c ctx vni opts s = Inr (res, s') \<Longrightarrow>
   heap s' = heap s \<and>
   (\<exists>h\<in>set (heap s). \<exists>call. (res, world s') = handle_legacy h call (world s))"
  unfolding routeClient_List_ptr_def
  by (erule operation_method_effect
        [where leg = routeClient.legacy and opts = opts and k = "\<lambda>ignored. ListRoutes ctx vni ignored"])
    (simp_all add: routeClient_List_def as_struct_legacy)

lemma routeClient_Create_ptr_effect:
  "routeClient_Create_ptr c ctx route opts s = Inr (res, s') \<Longrightarrow>
   heap s' = heap s \<and>
   (\<exists>h\<in>set (heap s). \<exists>call. (res, world s') = handle_legacy h call (world s))"
  unfolding routeClient_Create_ptr_def
  by (erule operation_method_effect
        [where leg = routeClient.legacy and opts = opts and k = "\<lambda>ignored. CreateRoute ctx route ignored"])
    (simp_all add: routeClient_Create_def as_struct_legacy)

lemma routeClient_Delete_ptr_effect:
  "routeClient_Delete_ptr c ctx vni prefix opts s = Inr (res, s') \<Longrightarrow>
   heap s' = heap s \<and>
   (\<exists>h\<in>set (heap s). \<exists>call. (res, world s') = handle_legacy h call (world s))"
  unfolding routeClient_Delete_ptr_def
  by (erule operation_method_effect
        [where leg = routeClient.legacy and opts = opts and k = "\<lambda>ignored. DeleteRoute ctx vni prefix ignored"])
    (simp_all add: routeClient_Delete_def as_struct_legacy)

lemma natClient_Get_ptr_effect:
  "natClient_Get_ptr c ctx interfaceID opts s = Inr (res, s') \<Longrightarrow>
   heap s' = heap s \<and>
   (\<exists>h\<in>set (heap s). \<exists>call. (res, world s') = handle_legacy h call (world s))"
  unfolding natClient_Get_ptr_def
  by (erule operation_method_effect
        [where leg = natClient.legacy and opts = opts and k = "\<lambda>ignored. GetNat ctx interfaceID ignored"])
    (simp_all add: natClient_Get_def as_struct_legacy)

lemma natClient_Create_ptr_effect:
  "natClient_Create_ptr c ctx nat' opts s = Inr (res, s') \<Longrightarrow>
   heap s' = heap s \<and>
   (\<exists>h\<in>set (heap s). \<exists>call. (res, world s') = handle_legacy h call (world s))"
  unfolding natClient_Create_ptr_def
  by (erule operation_method_effect
        [where leg = natClient.legacy and opts = opts and k = "\<lambda>ignored. CreateNat ctx nat' ignored"])
    (simp_all add: natClient_Create_def as_struct_legacy)

lemma natClient_Delete_ptr_effect:
  "natClient_Delete_ptr c ctx interfaceID opts s = Inr (res, s') \<Longrightarrow>
   heap s' = heap s \<and>
   (\<exists>h\<in>set (heap s). \<exists>call. (res, world s') = handle_legacy h call (world s))"
  unfolding natClient_Delete_ptr_def
  by (erule operation_method_effect
        [where leg = natClient.legacy and opts = opts and k = "\<lambda>ignored. DeleteNat ctx interfaceID ignored"])
    (simp_all add: natClient_Delete_def as_struct_legacy)

lemma natClient_ListAny_ptr_effect:
  "natClient_ListAny_ptr c ctx natIP opts s = Inr (res, s') \<Longrightarrow>
   heap s' = heap s \<and>
   (\<exists>h\<in>set (heap s). \<exists>call. (res, world s') = handle_legacy h call (world s))"
  unfolding natClient_ListAny_ptr_def
  by (erule operation_method_effect
        [where leg = natClient.legacy and opts = opts and k = "\<lambda>ignored. ListNats ctx natIP ''any'' ignored"])
    (simp_all add: natClient_ListAny_def as_struct_legacy)

lemma natClient_ListLocal_ptr_effect:
  "natClient_ListLocal_ptr c ctx natIP opts s = Inr (res, s') \<Longrightarrow>
   heap s' = heap s \<and>
   (\<exists>h\<in>set (heap s). \<exists>call. (res, world s') = handle_legacy h call (world s))"
  unfolding natClient_ListLocal_ptr_def
  by (erule operation_method_effect
        [where leg = natClient.legacy and opts = opts and k = "\<lambda>ignored. ListLocalNats ctx natIP ignored"])
    (simp_all add: natClient_ListLocal_def as_struct_legacy)

lemma natClient_ListNeighbors_ptr_effect:
  "natClient_ListNeighbors_ptr c ctx natIP opts s = Inr (res, s') \<Longrightarrow>
   heap s' = heap s \<and>
   (\<exists>h\<in>set (heap s). \<exists>call. (res, world s') = handle_legacy h call (world s))"
  unfolding natClient_ListNeighbors_ptr_def
  by (erule operation_method_effect
        [where leg = natClient.legacy and opts = opts and k = "\<lambda>ignored. ListNeighborNats ctx natIP ignored"])
    (simp_all add: natClient_ListNeighbors_def as_struct_legacy)

lemma natClient_CreateNeighbor_ptr_effect:
  "natClient_CreateNeighbor_ptr c ctx n opts s = Inr (res, s') \<Longrightarrow>
   heap s' = heap s \<and>
   (\<exists>h\<in>set (heap s). \<exists>call. (res, world s') = handle_legacy h call (world s))"
  unfolding natClient_CreateNeighbor_ptr_def
  by (erule operation_method_effect
        [where leg = natClient.legacy and opts = opts and k = "\<lambda>ignored. CreateNeighborNat ctx n ignored"])
    (simp_all add: natClient_CreateNeighbor_def as_struct_legacy)

lemma natClient_DeleteNeighbor_ptr_effect:
  "natClient_DeleteNeighbor_ptr c ctx n opts s = Inr (res, s') \<Longrightarrow>
   heap s' = heap s \<and>
   (\<exists>h\<in>set (heap s). \<exists>call. (res, world s') = handle_legacy h call (world s))"
  unfolding natClient_DeleteNeighbor_ptr_def
  by (erule operation_method_effect
        [where leg = natClient.legacy and opts = opts and k = "\<lambda>ignored. DeleteNeighborNat ctx n ignored"])
    (simp_all add: natClient_DeleteNeighbor_def as_struct_legacy)

lemma fwClient_List_ptr_effect:
  "fwClient_List_ptr c ctx interfaceID opts s = Inr (res, s') \<Longrightarrow>
   heap s' = heap s \<and>
   (\<exists>h\<in>set (heap s). \<exists>call. (res, world s') = handle_legacy h call (world s))"
  unfolding fwClient_List_ptr_def
  by (erule operation_method_effect
        [where leg = fwClient.legacy and opts = opts and k = "\<lambda>ignored. ListFirewallRules ctx interfaceID ignored"])
    (simp_all add: fwClient_List_def as_struct_legacy)

lemma fwClient_Get_ptr_effect:
  "fwClient_Get_ptr c ctx interfaceID ruleID opts s = Inr (res, s') \<Longrightarrow>
   heap s' = heap s \<and>
   (\<exists>h\<in>set (heap s). \<exists>call. (res, world s') = handle_legacy h call (world s))"
  unfolding fwClient_Get_ptr_def
  by (erule operation_method_effect
        [where leg = fwClient.legacy and opts = opts and k = "\<lambda>ignored. GetFirewallRule ctx interfaceID ruleID ignored"])
    (simp_all add: fwClient_Get_def as_struct_legacy)

lemma fwClient_Create_ptr_effect:
  "fwClient_Create_ptr c ctx rule opts s = Inr (res, s') \<Longrightarrow>
   heap s' = heap s \<and>
   (\<exists>h\<in>set (heap s). \<exists>call. (res, world s') = handle_legacy h call (world s))"
  unfolding fwClient_Create_ptr_def
  by (erule operation_method_effect
        [where leg = fwClient.legacy and opts = opts and k = "\<lambda>ignored. CreateFirewallRule ctx rule ignored"])
    (simp_all add: fwClient_Create_def as_struct_legacy)

lemma fwClient_Delete_ptr_effect:
  "fwClient_Delete_ptr c ctx interfaceID ruleID opts s = Inr (res, s') \<Longrightarrow>
   heap s' = heap s \<and>
   (\<exists>h\<in>set (heap s). \<exists>call. (res, world s') = handle_legacy h call (world s))"
  unfolding fwClient_Delete_ptr_def
  by (erule operation_method_effect
        [where leg = fwClient.legacy and opts = opts and k = "\<lambda>ignored. DeleteFirewallRule ctx interfaceID ruleID ignored"])
    (simp_all add: fwClient_Delete_def as_struct_legacy)

lemma systemClient_CheckInitialized_ptr_effect:
  "systemClient_CheckInitialized_ptr c ctx opts s = Inr (res, s') \<Longrightarrow>
   heap s' = heap s \<and>
   (\<exists>h\<in>set (heap s). \<exists>call. (res, world s') = handle_legacy h call (world s))"
  unfolding systemClient_CheckInitialized_ptr_def
  by (erule operation_method_effect
        [where leg = systemClient.legacy and opts = opts and k = "\<lambda>ignored. CheckInitialized ctx ignored"])
    (simp_all add: systemClient_CheckInitialized_def as_struct_legacy)

lemma systemClient_Initialize_ptr_effect:
  "systemClient_Initialize_ptr c ctx opts s = Inr (res, s') \<Longrightarrow>
   heap s' = heap s \<and>
   (\<exists>h\<in>set (heap s). \<exists>call. (res, world s') = handle_legacy h call (world s))"
  unfolding systemClient_Initialize_ptr_def
  by (erule operation_method_effect
        [where leg = systemClient.legacy and opts = opts and k = "\<lambda>ignored. Initialize ctx ignored"])
    (simp_all add: systemClient_Initialize_def as_struct_legacy)

lemma systemClient_GetVni_ptr_effect:
  "systemClient_GetVni_ptr c ctx vni vniType opts s = Inr (res, s') \<Longrightarrow>
   heap s' = heap s \<and>
   (\<exists>h\<in>set (heap s). \<exists>call. (res, world s') = handle_legacy h call (world s))"
  unfolding systemClient_GetVni_ptr_def
  by (erule operation_method_effect
        [where leg = systemClient.legacy and opts = opts and k = "\<lambda>ignored. GetVni ctx vni vniType ignored"])
    (simp_all add: systemClient_GetVni_def as_struct_legacy)

lemma systemClient_ResetVni_ptr_effect:
  "systemClient_ResetVni_ptr c ctx vni vniType opts s = Inr (res, s') \<Longrightarrow>
   heap s' = heap s \<and>
   (\<exists>h\<in>set (heap s). \<exists>call. (res, world s') = handle_legacy h call (world s))"
  unfolding systemClient_ResetVni_ptr_def
  by (erule operation_method_effect
        [where leg = systemClient.legacy and opts = opts and k = "\<lambda>ignored. ResetVni ctx vni vniType ignored"])
    (simp_all add: systemClient_ResetVni_def as_struct_legacy)

lemma systemClient_GetVersion_ptr_effect:
  "systemClient_GetVersion_ptr c ctx version opts s = Inr (res, s') \<Longrightarrow>
   heap s' = heap s \<and>
   (\<exists>h\<in>set (heap s). \<exists>call. (res, world s') = handle_legacy h call (world s))"
  unfolding systemClient_GetVersion_ptr_def
  by (erule operation_method_effect
        [where leg = systemClient.legacy and opts = opts and k = "\<lambda>ignored. GetVersion ctx version ignored"])
    (simp_all add: systemClient_GetVersion_def as_struct_legacy)

lemma captureClient_Start_ptr_effect:
  "captureClient_Start_ptr c ctx capture opts s = Inr (res, s') \<Longrightarrow>
   heap s' = heap s \<and>
   (\<exists>h\<in>set (heap s). \<exists>call. (res, world s') = handle_legacy h call (world s))"
  unfolding captureClient_Start_ptr_def
  by (erule operation_method_effect
        [where leg = captureClient.legacy and opts = opts and k = "\<lambda>ignored. CaptureStart ctx capture ignored"])
    (simp_all add: captureClient_Start_def as_struct_legacy)

lemma captureClient_Stop_ptr_effect:
  "captureClient_Stop_ptr c ctx opts s = Inr (res, s') \<Longrightarrow>
   heap s' = heap s \<and>
   (\<exists>h\<in>set (heap s). \<exists>call. (res, world s') = handle_legacy h call (world s))"
  unfolding captureClient_Stop_ptr_def
  by (erule operation_method_effect
        [where leg = captureClient.legacy and opts = opts and k = "\<lambda>ignored. CaptureStop ctx ignored"])
    (simp_all add: captureClient_Stop_def as_struct_legacy)

lemma captureClient_Status_ptr_effect:
  "captureClient_Status_ptr c ctx opts s = Inr (res, s') \<Longrightarrow>
   heap s' = heap s \<and>
   (\<exists>h\<in>set (heap s). \<exists>call. (res, world s') = handle_legacy h call (world s))"
  unfolding captureClient_Status_ptr_def
  by (erule operation_method_effect
        [where leg = captureClient.legacy and opts = opts and k = "\<lambda>ignored. CaptureStatus ctx ignored"])
    (simp_all add: captureClient_Status_def as_struct_legacy)

lemmas accessor_effects =
  rootAdapter_LoadBalancers_ptr_effect rootAdapter_Interfaces_ptr_effect
  rootAdapter_Routes_ptr_effect rootAdapter_NATs_ptr_effect rootAdapter_Firewall_ptr_effect
  rootAdapter_System_ptr_effect rootAdapter_Capture_ptr_effect lbClient_Prefixes_ptr_effect
  lbClient_Targets_ptr_effect ifaceClient_VIP_ptr_effect ifaceClient_Prefixes_ptr_effect
  ifaceClient_Firewall_ptr_effect

lemmas operation_effects =
  lbClient_Get_ptr_effect lbClient_List_ptr_effect lbClient_Create_ptr_effect
  lbClient_Delete_ptr_effect lbPrefixesClient_List_ptr_effect
  lbPrefixesClient_Create_ptr_effect lbPrefixesClient_Delete_ptr_effect
  lbTargetsClient_List_ptr_effect lbTargetsClient_Create_ptr_effect
  lbTargetsClient_Delete_ptr_effect ifaceClient_Get_ptr_effect ifaceClient_List_ptr_effect
  ifaceClient_Create_ptr_effect ifaceClient_Delete_ptr_effect vipClient_Get_ptr_effect
  vipClient_Create_ptr_effect vipClient_Delete_ptr_effect
  ifacePrefixesClient_List_ptr_effect ifacePrefixesClient_Create_ptr_effect
  ifacePrefixesClient_Delete_ptr_effect routeClient_List_ptr_effect
  routeClient_Create_ptr_effect routeClient_Delete_ptr_effect natClient_Get_ptr_effect
  natClient_Create_ptr_effect natClient_Delete_ptr_effect natClient_ListAny_ptr_effect
  natClient_ListLocal_ptr_effect natClient_ListNeighbors_ptr_effect
  natClient_CreateNeighbor_ptr_effect natClient_DeleteNeighbor_ptr_effect
  fwClient_List_ptr_effect fwClient_Get_ptr_effect fwClient_Create_ptr_effect
  fwClient_Delete_ptr_effect systemClient_CheckInitialized_ptr_effect
  systemClient_Initialize_ptr_effect systemClient_GetVni_ptr_effect
  systemClient_ResetVni_ptr_effect systemClient_GetVersion_ptr_effect
  captureClient_Start_ptr_effect captureClient_Stop_ptr_effect
  captureClient_Status_ptr_effect

text \<open>
  A call is an operation, which allocates nothing and invokes the client of a handle once,
  or it allocates one struct and leaves the world alone; the struct of a derived handle
  holds the client its receiver holds.
\<close>

lemma call_effect:
  assumes "method_call (s, D) (s', D')"
  shows "(heap s' = heap s \<and> D' = D \<and>
          (\<exists>h\<in>set (heap s). \<exists>k. world s' = snd (handle_legacy h k (world s)))) \<or>
         (world s' = world s \<and>
          (\<exists>h. heap s' = heap s @ [h] \<and>
             (D' = D \<or>
              (\<exists>a\<in>D. a < length (heap s) \<and> D' = insert (length (heap s)) D \<and>
                 handle_legacy h = handle_legacy (heap s ! a)))))"
  using assms
proof (cases rule: method_call.cases)
  case (call_AsV2 c p)
  then show ?thesis by (auto simp add: AsV2_ptr_def new_struct_def)
qed (auto dest!: accessor_effects operation_effects, (metis snd_conv)+)

lemma invoke_all_append: "invoke_all (xs @ ys) w = invoke_all ys (invoke_all xs w)"
  by (induction xs arbitrary: w) simp_all

text \<open>The invariant of a run, for the handles derived from a root that holds \<open>L\<close>.\<close>

lemma run_invariant:
  assumes "run c0 c"
    and "\<forall>a\<in>snd c0. a < length (heap (fst c0)) \<and> handle_legacy (heap (fst c0) ! a) = L"
  shows "(\<forall>a\<in>snd c. a < length (heap (fst c)) \<and> handle_legacy (heap (fst c) ! a) = L) \<and>
         take (length (heap (fst c0))) (heap (fst c)) = heap (fst c0) \<and>
         (\<exists>calls. world (fst c) = invoke_all calls (world (fst c0)) \<and>
            (\<forall>i\<in>set calls. \<exists>h\<in>set (heap (fst c)). fst i = handle_legacy h))"
  using assms
proof (induction rule: run.induct)
  case run_refl
  have "world (fst c0) = invoke_all [] (world (fst c0))" by simp
  then show ?case using run_refl by fastforce
next
  case (run_step c c')
  obtain s D s' D' where c: "c = (s, D)" and c': "c' = (s', D')"
    by (cases c, cases c') blast
  from run_step.IH [OF run_step.prems] c
  have inv: "\<forall>a\<in>D. a < length (heap s) \<and> handle_legacy (heap s ! a) = L"
    and old: "take (length (heap (fst c0))) (heap s) = heap (fst c0)"
    by simp_all
  from run_step.IH [OF run_step.prems] c obtain calls where
    w: "world s = invoke_all calls (world (fst c0))"
    and cs: "\<forall>i\<in>set calls. \<exists>h\<in>set (heap s). fst i = handle_legacy h"
    by auto
  from old have le: "length (heap (fst c0)) \<le> length (heap s)"
    by (metis length_take min.cobounded1)
  from run_step.hyps(2) c c' have step: "method_call (s, D) (s', D')" by simp
  from call_effect [OF step] show ?case
  proof
    assume op: "heap s' = heap s \<and> D' = D \<and>
      (\<exists>h\<in>set (heap s). \<exists>k. world s' = snd (handle_legacy h k (world s)))"
    then obtain h k where h: "h \<in> set (heap s)"
      and w': "world s' = snd (handle_legacy h k (world s))" by blast
    have "world s' = invoke_all (calls @ [(handle_legacy h, k)]) (world (fst c0))"
      by (simp add: invoke_all_append w w')
    moreover have "\<forall>i\<in>set (calls @ [(handle_legacy h, k)]).
                     \<exists>h\<in>set (heap s'). fst i = handle_legacy h"
      using cs h op by auto
    ultimately have "\<exists>calls. world s' = invoke_all calls (world (fst c0)) \<and>
        (\<forall>i\<in>set calls. \<exists>h\<in>set (heap s'). fst i = handle_legacy h)"
      by blast
    with op inv old show ?thesis by (simp add: c')
  next
    assume acc: "world s' = world s \<and>
      (\<exists>h. heap s' = heap s @ [h] \<and>
         (D' = D \<or>
          (\<exists>a\<in>D. a < length (heap s) \<and> D' = insert (length (heap s)) D \<and>
             handle_legacy h = handle_legacy (heap s ! a))))"
    then obtain h where hp: "heap s' = heap s @ [h]"
      and d: "D' = D \<or>
          (\<exists>a\<in>D. a < length (heap s) \<and> D' = insert (length (heap s)) D \<and>
             handle_legacy h = handle_legacy (heap s ! a))"
      by blast
    have derived: "\<forall>a\<in>D'. a < length (heap s') \<and> handle_legacy (heap s' ! a) = L"
      using d inv by (auto simp add: hp nth_append)
    have kept: "take (length (heap (fst c0))) (heap s') = heap (fst c0)"
      using old le by (simp add: hp)
    have "\<forall>i\<in>set calls. \<exists>h\<in>set (heap s'). fst i = handle_legacy h"
      using cs by (auto simp add: hp)
    with w acc have "\<exists>calls. world s' = invoke_all calls (world (fst c0)) \<and>
        (\<forall>i\<in>set calls. \<exists>h\<in>set (heap s'). fst i = handle_legacy h)"
      by auto
    with derived kept show ?thesis by (simp add: c')
  qed
qed

text \<open>
  Claim C7. A handle is a struct with one field, the legacy client (the last twelve
  conjuncts). Take a root at address \<open>r\<close> holding a client, and any sequence of calls of the
  package's methods after it, accessors and operations, on any handles: every handle
  derived from the root, directly or through a chain of accessors, holds the root's client;
  every struct that existed before is as it was, so no call has replaced or changed a
  \<open>legacy\<close> field; and the world differs by invocations of the clients held by handles and
  by nothing else: the package does nothing to a client but call the methods of
  \<open>legacyCall\<close> on it, none of which closes it.
\<close>

theorem handles_share_legacy:
  assumes "deref as_rootAdapter (Ptr r) s = Inr v"
    and "run (s, {r}) (s', D)"
  shows "(\<forall>a\<in>D. a < length (heap s') \<and> handle_legacy (heap s' ! a) = rootAdapter.legacy v) \<and>
         take (length (heap s)) (heap s') = heap s \<and>
         (\<exists>calls. world s' = invoke_all calls (world s) \<and>
            (\<forall>i\<in>set calls. \<exists>h\<in>set (heap s'). fst i = handle_legacy h)) \<and>
         (\<forall>c :: ('r, 'w) rootAdapter. c = \<lparr>rootAdapter.legacy = rootAdapter.legacy c\<rparr>) \<and>
         (\<forall>c :: ('r, 'w) lbClient. c = \<lparr>lbClient.legacy = lbClient.legacy c\<rparr>) \<and>
         (\<forall>c :: ('r, 'w) lbPrefixesClient. c = \<lparr>lbPrefixesClient.legacy = lbPrefixesClient.legacy c\<rparr>) \<and>
         (\<forall>c :: ('r, 'w) lbTargetsClient. c = \<lparr>lbTargetsClient.legacy = lbTargetsClient.legacy c\<rparr>) \<and>
         (\<forall>c :: ('r, 'w) ifaceClient. c = \<lparr>ifaceClient.legacy = ifaceClient.legacy c\<rparr>) \<and>
         (\<forall>c :: ('r, 'w) vipClient. c = \<lparr>vipClient.legacy = vipClient.legacy c\<rparr>) \<and>
         (\<forall>c :: ('r, 'w) ifacePrefixesClient. c = \<lparr>ifacePrefixesClient.legacy = ifacePrefixesClient.legacy c\<rparr>) \<and>
         (\<forall>c :: ('r, 'w) routeClient. c = \<lparr>routeClient.legacy = routeClient.legacy c\<rparr>) \<and>
         (\<forall>c :: ('r, 'w) natClient. c = \<lparr>natClient.legacy = natClient.legacy c\<rparr>) \<and>
         (\<forall>c :: ('r, 'w) fwClient. c = \<lparr>fwClient.legacy = fwClient.legacy c\<rparr>) \<and>
         (\<forall>c :: ('r, 'w) systemClient. c = \<lparr>systemClient.legacy = systemClient.legacy c\<rparr>) \<and>
         (\<forall>c :: ('r, 'w) captureClient. c = \<lparr>captureClient.legacy = captureClient.legacy c\<rparr>)"
proof -
  from assms(1) have "r < length (heap s)" "as_rootAdapter (heap s ! r) = Some v"
    by (auto simp add: deref_Inr_iff)
  then have "\<forall>a\<in>snd (s, {r}).
      a < length (heap (fst (s, {r}))) \<and>
      handle_legacy (heap (fst (s, {r})) ! a) = rootAdapter.legacy v"
    by (simp add: as_struct_legacy)
  from run_invariant [OF assms(2) this] show ?thesis by simp
qed

text \<open>
  The theorem of claim C7 on the run \<open>Interfaces()\<close>, \<open>Firewall()\<close>, \<open>List(ctx, "iface-1")\<close>
  from a root around a recording client: the firewall handle at address 2 is derived and
  holds the root's client.
\<close>

theorem handles_share_legacy_witness:
  "deref as_rootAdapter (Ptr 0)
     \<lparr>heap = [H_rootAdapter (AsV2 (recorder (\<lambda>call. ())))], world = []\<rparr> =
     Inr (AsV2 (recorder (\<lambda>call. ()))) \<and>
   run (\<lparr>heap = [H_rootAdapter (AsV2 (recorder (\<lambda>call. ())))], world = []\<rparr>, {0})
       (\<lparr>heap = [H_rootAdapter (AsV2 (recorder (\<lambda>call. ()))),
                 H_ifaceClient (rootAdapter_Interfaces (AsV2 (recorder (\<lambda>call. ())))),
                 H_fwClient (ifaceClient_Firewall
                               (rootAdapter_Interfaces (AsV2 (recorder (\<lambda>call. ())))))],
         world = [ListFirewallRules (Ctx 0) ''iface-1'' nil]\<rparr>, {0, 1, 2}) \<and>
   handle_legacy
     (H_fwClient (ifaceClient_Firewall (rootAdapter_Interfaces (AsV2 (recorder (\<lambda>call. ()))))))
     = recorder (\<lambda>call. ())"
proof -
  let ?R = "recorder (\<lambda>call. ()) :: (unit, legacyCall list) legacy_Client"
  let ?S1 = "\<lparr>heap = [H_rootAdapter (AsV2 ?R)], world = []\<rparr>"
  let ?S2 = "\<lparr>heap = [H_rootAdapter (AsV2 ?R), H_ifaceClient (rootAdapter_Interfaces (AsV2 ?R))],
              world = []\<rparr>"
  let ?S3 = "\<lparr>heap = [H_rootAdapter (AsV2 ?R), H_ifaceClient (rootAdapter_Interfaces (AsV2 ?R)),
                      H_fwClient (ifaceClient_Firewall (rootAdapter_Interfaces (AsV2 ?R)))],
              world = []\<rparr>"
  let ?S4 = "\<lparr>heap = [H_rootAdapter (AsV2 ?R), H_ifaceClient (rootAdapter_Interfaces (AsV2 ?R)),
                      H_fwClient (ifaceClient_Firewall (rootAdapter_Interfaces (AsV2 ?R)))],
              world = [ListFirewallRules (Ctx 0) ''iface-1'' nil]\<rparr>"
  have d: "deref as_rootAdapter (Ptr 0) ?S1 = Inr (AsV2 ?R)"
    by (simp add: deref_def as_handle_simps)
  have "rootAdapter_Interfaces_ptr (Ptr 0) ?S1 = Inr (Ptr 1, ?S2)"
    by (simp add: rootAdapter_Interfaces_ptr_def accessor_method_def deref_def as_handle_simps
        new_struct_def)
  from call_rootAdapter_Interfaces [OF this, of "{0}"]
  have c1: "method_call (?S1, {0}) (?S2, {0, 1})"
    by (simp add: insert_commute)
  have "ifaceClient_Firewall_ptr (Ptr 1) ?S2 = Inr (Ptr 2, ?S3)"
    by (simp add: ifaceClient_Firewall_ptr_def accessor_method_def deref_def as_handle_simps
        new_struct_def)
  from call_ifaceClient_Firewall [OF this, of "{0, 1}"]
  have c2: "method_call (?S2, {0, 1}) (?S3, {0, 1, 2})"
    by (simp add: insert_commute)
  have "fwClient_List_ptr (Ptr 2) (Ctx 0) ''iface-1'' [] ?S3 = Inr ((), ?S4)"
    by (simp add: fwClient_List_ptr_def operation_method_def deref_def as_handle_simps
        in_world_def fwClient_List_def with_ignored_returns [OF toLegacyIgnored_no_options]
        ifaceClient_Firewall_def rootAdapter_Interfaces_def AsV2_def recorder_def)
  from call_fwClient_List [OF this, of "{0, 1, 2}"]
  have c3: "method_call (?S3, {0, 1, 2}) (?S4, {0, 1, 2})" .
  have r: "run (?S1, {0}) (?S4, {0, 1, 2})"
    by (rule run_step [OF run_step [OF run_step [OF run_refl c1] c2] c3])
  from handles_share_legacy [OF d r]
  have "handle_legacy (heap ?S4 ! 2) = rootAdapter.legacy (AsV2 ?R)"
    by simp
  then have "handle_legacy
      (H_fwClient (ifaceClient_Firewall (rootAdapter_Interfaces (AsV2 ?R)))) = ?R"
    by (simp add: AsV2_def)
  with d r show ?thesis by (simp only: simp_thms)
qed

end
